theory Spec2Isabelle
  imports Complex_Main "HOL-Library.AList"
begin

section \<open>ThingsBoard location telemetry sender (send\_location.py)\<close>

text \<open>
  The script builds a JSON object, issues one HTTP POST per reading and, in simulation
  mode, repeats this on a wall-clock cadence while mutating a position and a battery level.
  Python floats are modelled by \<^typ>\<open>real\<close> (ideal arithmetic), Python ints by
  \<^typ>\<open>int\<close>. Everything the script does to the outside is a field of \<open>world\<close>;
  everything the outside decides (the network's answer, the raw output of the random number
  generator, how long a call took) is an explicit argument.
\<close>

subsection \<open>Python values and library behaviour the script relies on\<close>

text \<open>\<open>int(x)\<close> on a float truncates towards zero.\<close>

definition py_int :: "real \<Rightarrow> int" where
  "py_int x = (if 0 \<le> x then \<lfloor>x\<rfloor> else \<lceil>x\<rceil>)"

text \<open>\<open>round(x, ndigits)\<close> on a float: nearest multiple of \<open>10 ^ -ndigits\<close>, ties to even.\<close>

definition round_half_even :: "real \<Rightarrow> int" where
  "round_half_even x =
     (let f = \<lfloor>x\<rfloor>; r = x - of_int f
      in if r < 1 / 2 then f else if 1 / 2 < r then f + 1 else if even f then f else f + 1)"

definition py_round :: "real \<Rightarrow> nat \<Rightarrow> real" where
  "py_round x ndigits = of_int (round_half_even (x * 10 ^ ndigits)) / 10 ^ ndigits"

text \<open>Truthiness of an optional int (\<open>if args.batt:\<close>): \<open>None\<close> and \<open>0\<close> are false.\<close>

definition truthy_int :: "int option \<Rightarrow> bool" where
  "truthy_int v = (case v of None \<Rightarrow> False | Some n \<Rightarrow> n \<noteq> 0)"

text \<open>A \<open>requests.Response\<close>: the two attributes the script reads.\<close>

record response =
  status_code :: int
  resp_text :: string

text \<open>
  Exceptions that occur in the script. \<open>requests.exceptions.RequestException\<close> is the base
  class of everything the \<open>requests\<close> library raises on its own account (connection
  errors, timeouts, and the \<open>HTTPError\<close> of \<open>raise_for_status\<close>).
\<close>

datatype request_exception =
    ConnectionError
  | Timeout
  | HTTPError response

datatype exc =
    RequestException request_exception
  | ValueError
  | OverflowError
  | SystemExit int
  | OtherException

text \<open>
  \<open>Response.raise_for_status()\<close> raises \<open>HTTPError\<close> exactly for status codes
  400 to 599; \<open>Response.ok\<close>, which is also the truth value of a response object, is
  true exactly when \<open>raise_for_status\<close> does not raise.
\<close>

definition raise_for_status :: "response \<Rightarrow> exc + unit" where
  "raise_for_status r =
     (if 400 \<le> status_code r \<and> status_code r < 600
      then Inl (RequestException (HTTPError r)) else Inr ())"

definition ok :: "response \<Rightarrow> bool" where
  "ok r = (case raise_for_status r of Inl _ \<Rightarrow> False | Inr _ \<Rightarrow> True)"

definition truthy_response :: "response option \<Rightarrow> bool" where
  "truthy_response v = (case v of None \<Rightarrow> False | Some r \<Rightarrow> ok r)"

subsection \<open>The world: clock, console, network\<close>

datatype json = JStr string | JFloat real | JInt int

text \<open>
  A Python dict keeps insertion order; assignment to a key updates or appends. The \<open>data\<close>
  of a request is the dict handed to \<open>json.dumps\<close>, which writes one member per key of it.
\<close>

type_synonym pydict = "(string \<times> json) list"

record request =
  url :: string
  headers :: "(string \<times> string) list"
  data :: pydict

text \<open>One constructor per \<open>print\<close> statement of the script, with the values it formats.\<close>

datatype out_line =
    ErrorSendingTelemetry exc
  | StartingSimulation
  | InitialPosition real real
  | DurationInterval int int
  | Dashes
  | UpdateLine real nat real real int int
  | FailedUpdate nat
  | SimulationComplete nat
  | SendingTo string
  | SuccessLine
  | LatitudeLine real
  | LongitudeLine real
  | BatteryLine int
  | AccuracyLine int
  | AltitudeLine int
  | FailedLine
  | StatusCodeLine int
  | ResponseLine string

record world =
  clock :: real
  stdout :: "out_line list"
  stderr :: "string list"
  posts :: "request list"

definition print :: "out_line \<Rightarrow> world \<Rightarrow> world" where
  "print l w = w\<lparr>stdout := stdout w @ [l]\<rparr>"

text \<open>What the network does with one POST: how it ends and how long it took.\<close>

datatype post_outcome = Raises exc | Responds response

record net_reply =
  outcome :: post_outcome
  took :: real

text \<open>\<open>requests.post\<close>: the request goes out once, time passes, the outcome comes back.\<close>

definition requests_post :: "net_reply \<Rightarrow> request \<Rightarrow> world \<Rightarrow> (exc + response) \<times> world" where
  "requests_post net req w =
     (let w' = w\<lparr>clock := clock w + took net, posts := posts w @ [req]\<rparr>
      in case outcome net of
           Raises e \<Rightarrow> (Inl e, w')
         | Responds r \<Rightarrow> (Inr r, w'))"

text \<open>
  \<open>time.sleep(secs)\<close> first converts the length to a 64-bit count of nanoseconds and
  raises \<open>OverflowError\<close> when it does not fit (9223372037 seconds or more, in either
  direction), then raises \<open>ValueError\<close> on a negative length, else suspends at least that long.
\<close>

definition time_sleep :: "int \<Rightarrow> real \<Rightarrow> world \<Rightarrow> (exc + unit) \<times> world" where
  "time_sleep secs overslept w =
     (if secs \<le> - 9223372037 \<or> 9223372037 \<le> secs then (Inl OverflowError, w)
      else if secs < 0 then (Inl ValueError, w)
      else (Inr (), w\<lparr>clock := clock w + real_of_int secs + overslept\<rparr>))"

text \<open>
  The \<open>random\<close> module. \<open>random.random()\<close> returns \<open>k / 2 ^ 53\<close> for a 53-bit
  number \<open>k\<close> taken from the generator (here: from the generator's raw output \<open>bits\<close>);
  \<open>random.uniform(a, b)\<close> is \<open>a + (b - a) * random()\<close>; \<open>random.randint(a, b)\<close>
  is \<open>a\<close> plus a number below \<open>b - a + 1\<close> taken from the generator.
\<close>

definition random_random :: "nat \<Rightarrow> real" where
  "random_random bits = real (bits mod 9007199254740992) / 9007199254740992"

definition random_uniform :: "real \<Rightarrow> real \<Rightarrow> nat \<Rightarrow> real" where
  "random_uniform a b bits = a + (b - a) * random_random bits"

definition random_randint :: "int \<Rightarrow> int \<Rightarrow> nat \<Rightarrow> int" where
  "random_randint a b bits = a + int bits mod (b - a + 1)"

subsection \<open>\<open>send_telemetry\<close>\<close>

definition DEFAULT_SERVER :: string where
  "DEFAULT_SERVER = ''http://52.42.86.26:8081''"

text \<open>Lines 44 to 57: the payload dict.\<close>

definition telemetry_payload ::
  "int \<Rightarrow> real \<Rightarrow> real \<Rightarrow> int option \<Rightarrow> int option \<Rightarrow> int option \<Rightarrow> pydict" where
  "telemetry_payload tst la lo ba ac al =
     (let payload = [(''_type'', JStr ''location''), (''lat'', JFloat la),
                     (''lon'', JFloat lo), (''tst'', JInt tst)];
          payload = (case ba of None \<Rightarrow> payload | Some b \<Rightarrow> AList.update ''batt'' (JInt b) payload);
          payload = (case ac of None \<Rightarrow> payload | Some a \<Rightarrow> AList.update ''acc'' (JInt a) payload);
          payload = (case al of None \<Rightarrow> payload | Some a \<Rightarrow> AList.update ''alt'' (JInt a) payload)
      in payload)"

definition send_telemetry ::
  "net_reply \<Rightarrow> world \<Rightarrow> string \<Rightarrow> string \<Rightarrow> real \<Rightarrow> real \<Rightarrow> int option \<Rightarrow> int option \<Rightarrow> int option
     \<Rightarrow> (exc + response option) \<times> world" where
  "send_telemetry net w srv tok la lo ba ac al =
     (let req = \<lparr>url = srv @ ''/api/v1/'' @ tok @ ''/telemetry'',
                 headers = [(''Content-Type'', ''application/json'')],
                 data = telemetry_payload (py_int (clock w)) la lo ba ac al\<rparr>;
          (res, w1) = requests_post net req w;
          res = (case res of Inl e \<Rightarrow> Inl e
                 | Inr r \<Rightarrow> (case raise_for_status r of Inl e \<Rightarrow> Inl e | Inr _ \<Rightarrow> Inr r))
      in case res of
           Inr r \<Rightarrow> (Inr (Some r), w1)
         | Inl (RequestException e) \<Rightarrow>
             (Inr None, print (ErrorSendingTelemetry (RequestException e)) w1)
         | Inl e \<Rightarrow> (Inl e, w1))"

subsection \<open>\<open>simulate_movement\<close>\<close>

text \<open>The local variables of the simulation that live across loop iterations.\<close>

record sim_state =
  current_lat :: real
  current_lon :: real
  battery :: real
  update_count :: nat

text \<open>
  What the outside contributes to one loop iteration: the generator's raw output for each of the
  five random draws, in the order of lines 98 to 106, the network's reply to the POST, and by how
  much \<open>time.sleep\<close> overshot.
\<close>

record tick_env =
  raw_lat :: nat
  raw_lon :: nat
  raw_drain :: nat
  raw_accuracy :: nat
  raw_altitude :: nat
  reply :: net_reply
  overslept :: real

text \<open>Time does not run backwards: a POST and an oversleep take a non-negative time.\<close>

definition time_passes :: "tick_env \<Rightarrow> bool" where
  "time_passes e = (0 \<le> took (reply e) \<and> 0 \<le> overslept e)"

text \<open>Lines 97 to 127: the body of the \<open>while\<close> loop.\<close>

definition tick ::
  "string \<Rightarrow> string \<Rightarrow> int \<Rightarrow> tick_env \<Rightarrow> sim_state \<Rightarrow> world \<Rightarrow> (exc + sim_state) \<times> world" where
  "tick srv tok ival e st w =
     (let st = st\<lparr>current_lat := current_lat st + random_uniform (- (1 / 1000)) (1 / 1000) (raw_lat e)\<rparr>;
          st = st\<lparr>current_lon := current_lon st + random_uniform (- (1 / 1000)) (1 / 1000) (raw_lon e)\<rparr>;
          st = st\<lparr>battery := max 0 (battery st - random_uniform (1 / 10) (1 / 2) (raw_drain e))\<rparr>;
          accuracy = random_randint 5 20 (raw_accuracy e);
          altitude = random_randint 50 100 (raw_altitude e);
          (res, w) = send_telemetry (reply e) w srv tok
                       (py_round (current_lat st) 6) (py_round (current_lon st) 6)
                       (Some (py_int (battery st))) (Some accuracy) (Some altitude)
      in case res of
           Inl x \<Rightarrow> (Inl x, w)
         | Inr resp \<Rightarrow>
             (let (st, w) =
                    (if truthy_response resp \<and> status_code (the resp) = 200
                     then (let st = st\<lparr>update_count := update_count st + 1\<rparr>
                           in (st, print (UpdateLine (clock w) (update_count st) (current_lat st)
                                            (current_lon st) (py_int (battery st)) accuracy) w))
                     else (st, print (FailedUpdate (update_count st + 1)) w));
                  (slept, w) = time_sleep ival (overslept e) w
              in case slept of
                   Inl x \<Rightarrow> (Inl x, w)
                 | Inr _ \<Rightarrow> (Inr st, w)))"

text \<open>
  Line 96, \<open>while (time.time() - start_time) < duration\<close>. The list holds what the outside
  contributes to each iteration still to come; the loop returns \<open>None\<close> when it wants
  another iteration and the list is used up.
\<close>

fun sim_loop ::
  "string \<Rightarrow> string \<Rightarrow> int \<Rightarrow> int \<Rightarrow> real \<Rightarrow> tick_env list \<Rightarrow> sim_state \<Rightarrow> world
     \<Rightarrow> ((exc + sim_state) \<times> world) option" where
  "sim_loop srv tok dur ival start_time [] st w =
     (if clock w - start_time < real_of_int dur then None else Some (Inr st, w))"
| "sim_loop srv tok dur ival start_time (e # es) st w =
     (if clock w - start_time < real_of_int dur
      then (case tick srv tok ival e st w of
              (Inl x, w') \<Rightarrow> Some (Inl x, w')
            | (Inr st', w') \<Rightarrow> sim_loop srv tok dur ival start_time es st' w')
      else Some (Inr st, w))"

definition simulate_movement ::
  "tick_env list \<Rightarrow> world \<Rightarrow> string \<Rightarrow> string \<Rightarrow> real \<Rightarrow> real \<Rightarrow> int \<Rightarrow> int
     \<Rightarrow> ((exc + unit) \<times> world) option" where
  "simulate_movement envs w srv tok start_lat start_lon dur ival =
     (let w = print StartingSimulation w;
          w = print (InitialPosition start_lat start_lon) w;
          w = print (DurationInterval dur ival) w;
          w = print Dashes w;
          st = \<lparr>current_lat = start_lat, current_lon = start_lon, battery = 100, update_count = 0\<rparr>;
          start_time = clock w
      in case sim_loop srv tok dur ival start_time envs st w of
           None \<Rightarrow> None
         | Some (Inl x, w) \<Rightarrow> Some (Inl x, w)
         | Some (Inr st, w) \<Rightarrow>
             (let w = print Dashes w;
                  w = print (SimulationComplete (update_count st)) w
              in Some (Inr (), w)))"

subsection \<open>\<open>main\<close>\<close>

text \<open>The command line as typed: each flag present with a value of its type, or absent.\<close>

record cli =
  opt_token :: "string option"
  opt_server :: "string option"
  opt_lat :: "real option"
  opt_lon :: "real option"
  opt_batt :: "int option"
  opt_acc :: "int option"
  opt_alt :: "int option"
  opt_simulate :: bool
  opt_duration :: "int option"
  opt_interval :: "int option"

text \<open>The namespace \<open>parse_args\<close> returns.\<close>

record args =
  token :: string
  server :: string
  lat :: "real option"
  lon :: "real option"
  batt :: "int option"
  acc :: "int option"
  alt :: "int option"
  simulate :: bool
  duration :: int
  interval :: int

text \<open>\<open>parser.error(msg)\<close> prints the usage and the message to standard error and exits with status 2.\<close>

definition parser_error :: "string \<Rightarrow> world \<Rightarrow> (exc + 'a) \<times> world" where
  "parser_error msg w = (Inl (SystemExit 2), w\<lparr>stderr := stderr w @ [''usage'', msg]\<rparr>)"

text \<open>Lines 137 to 190: \<open>--token\<close> is required; \<open>--server\<close>, \<open>--duration\<close>, \<open>--interval\<close> have defaults.\<close>

definition parse_args :: "cli \<Rightarrow> world \<Rightarrow> (exc + args) \<times> world" where
  "parse_args c w =
     (case opt_token c of
        None \<Rightarrow> parser_error ''the following arguments are required: --token'' w
      | Some t \<Rightarrow>
          (Inr \<lparr>token = t,
                server = (case opt_server c of None \<Rightarrow> DEFAULT_SERVER | Some s \<Rightarrow> s),
                lat = opt_lat c, lon = opt_lon c,
                batt = opt_batt c, acc = opt_acc c, alt = opt_alt c,
                simulate = opt_simulate c,
                duration = (case opt_duration c of None \<Rightarrow> 60 | Some d \<Rightarrow> d),
                interval = (case opt_interval c of None \<Rightarrow> 5 | Some i \<Rightarrow> i)\<rparr>, w))"

text \<open>
  Lines 192 to 235. \<open>net\<close> is the network's reply in single-send mode, \<open>envs\<close> the
  outside's contributions in simulation mode.
\<close>

definition main :: "cli \<Rightarrow> net_reply \<Rightarrow> tick_env list \<Rightarrow> world \<Rightarrow> ((exc + unit) \<times> world) option" where
  "main c net envs w =
     (case parse_args c w of
        (Inl x, w) \<Rightarrow> Some (Inl x, w)
      | (Inr a, w) \<Rightarrow>
          if simulate a then
            (if lat a = None \<or> lon a = None
             then Some (parser_error ''--simulate requires --lat and --lon for starting position'' w)
             else simulate_movement envs w (server a) (token a) (the (lat a)) (the (lon a))
                    (duration a) (interval a))
          else
            (if lat a = None \<or> lon a = None
             then Some (parser_error ''--lat and --lon are required (unless using --simulate)'' w)
             else
               (let w = print (SendingTo (server a)) w;
                    (res, w) = send_telemetry net w (server a) (token a) (the (lat a)) (the (lon a))
                                 (batt a) (acc a) (alt a)
                in case res of
                     Inl x \<Rightarrow> Some (Inl x, w)
                   | Inr resp \<Rightarrow>
                       if truthy_response resp \<and> status_code (the resp) = 200 then
                         (let w = print SuccessLine w;
                              w = print (LatitudeLine (the (lat a))) w;
                              w = print (LongitudeLine (the (lon a))) w;
                              w = (if truthy_int (batt a) then print (BatteryLine (the (batt a))) w else w);
                              w = (if truthy_int (acc a) then print (AccuracyLine (the (acc a))) w else w);
                              w = (if truthy_int (alt a) then print (AltitudeLine (the (alt a))) w else w)
                          in Some (Inr (), w))
                       else
                         (let w = print FailedLine w;
                              w = (if truthy_response resp
                                   then print (ResponseLine (resp_text (the resp)))
                                          (print (StatusCodeLine (status_code (the resp))) w)
                                   else w)
                          in Some (Inr (), w)))))"

subsection \<open>Predicates used to state the properties\<close>

text \<open>The POST was answered with status 200: what lines 118 and 221 test.\<close>

definition answered_200 :: "net_reply \<Rightarrow> bool" where
  "answered_200 net = (case outcome net of Responds r \<Rightarrow> status_code r = 200 | Raises _ \<Rightarrow> False)"


text \<open>The POST ends in a response or in an exception of the \<open>requests\<close> library.\<close>

definition post_returns :: "net_reply \<Rightarrow> bool" where
  "post_returns net =
     (case outcome net of
        Raises (RequestException _) \<Rightarrow> True
      | Raises _ \<Rightarrow> False
      | Responds _ \<Rightarrow> True)"

text \<open>The request a tick posts and the battery level it leaves (lines 98 to 116).\<close>

definition drained :: "tick_env \<Rightarrow> sim_state \<Rightarrow> real" where
  "drained e st = max 0 (battery st - random_uniform (1 / 10) (1 / 2) (raw_drain e))"

definition tick_request :: "string \<Rightarrow> string \<Rightarrow> tick_env \<Rightarrow> sim_state \<Rightarrow> world \<Rightarrow> request" where
  "tick_request srv tok e st w =
     \<lparr>url = srv @ ''/api/v1/'' @ tok @ ''/telemetry'',
      headers = [(''Content-Type'', ''application/json'')],
      data = telemetry_payload (py_int (clock w))
               (py_round (current_lat st + random_uniform (- (1 / 1000)) (1 / 1000) (raw_lat e)) 6)
               (py_round (current_lon st + random_uniform (- (1 / 1000)) (1 / 1000) (raw_lon e)) 6)
               (Some (py_int (drained e st)))
               (Some (random_randint 5 20 (raw_accuracy e)))
               (Some (random_randint 50 100 (raw_altitude e)))\<rparr>"

text \<open>The battery value a request carries (0 when it carries none).\<close>

definition batt_sent :: "request \<Rightarrow> int" where
  "batt_sent req = (case map_of (data req) ''batt'' of Some (JInt b) \<Rightarrow> b | _ \<Rightarrow> 0)"

text \<open>The payload holds an int under the key, within the bounds.\<close>

definition int_field_in :: "pydict \<Rightarrow> string \<Rightarrow> int \<Rightarrow> int \<Rightarrow> bool" where
  "int_field_in p k lo hi = (case map_of p k of Some (JInt v) \<Rightarrow> lo \<le> v \<and> v \<le> hi | _ \<Rightarrow> False)"

definition sim_fields_ok :: "request \<Rightarrow> bool" where
  "sim_fields_ok req =
     (int_field_in (data req) ''batt'' 0 100 \<and> int_field_in (data req) ''acc'' 5 20 \<and>
      int_field_in (data req) ''alt'' 50 100)"

text \<open>The request \<open>send_telemetry\<close> posts when called in world \<open>w\<close> (lines 41 to 61).\<close>

definition telemetry_request :: "world \<Rightarrow> string \<Rightarrow> string \<Rightarrow> real \<Rightarrow> real \<Rightarrow> int option \<Rightarrow> int option \<Rightarrow> int option \<Rightarrow> request" where
  "telemetry_request w srv tok la lo ba ac al =
     \<lparr>url = srv @ ''/api/v1/'' @ tok @ ''/telemetry'',
      headers = [(''Content-Type'', ''application/json'')],
      data = telemetry_payload (py_int (clock w)) la lo ba ac al\<rparr>"

section \<open>Properties\<close>

subsection \<open>Auxiliary facts\<close>

lemma payload_lookup:
  "map_of (telemetry_payload tst la lo ba ac al) k =
     (if k = ''_type'' then Some (JStr ''location'')
      else if k = ''lat'' then Some (JFloat la)
      else if k = ''lon'' then Some (JFloat lo)
      else if k = ''tst'' then Some (JInt tst)
      else if k = ''batt'' then map_option JInt ba
      else if k = ''acc'' then map_option JInt ac
      else if k = ''alt'' then map_option JInt al
      else None)"
  by (simp add: telemetry_payload_def Let_def update_conv' split: option.split)

lemma payload_keys:
  "fst ` set (telemetry_payload tst la lo ba ac al) =
     {''_type'', ''lat'', ''lon'', ''tst''} \<union> (if ba = None then {} else {''batt''})
       \<union> (if ac = None then {} else {''acc''}) \<union> (if al = None then {} else {''alt''})"
  by (cases ba; cases ac; cases al) (simp_all add: telemetry_payload_def Let_def dom_update insert_commute)

lemma send_telemetry_world:
  "snd (send_telemetry net w srv tok la lo ba ac al) =
     w\<lparr>clock := clock w + took net,
       posts := posts w @ [telemetry_request w srv tok la lo ba ac al],
       stdout := stdout w @
         (case outcome net of
            Raises (RequestException e) \<Rightarrow> [ErrorSendingTelemetry (RequestException e)]
          | Raises _ \<Rightarrow> []
          | Responds r \<Rightarrow>
              if 400 \<le> status_code r \<and> status_code r < 600
              then [ErrorSendingTelemetry (RequestException (HTTPError r))] else [])\<rparr>"
  by (simp add: send_telemetry_def requests_post_def raise_for_status_def print_def Let_def
      telemetry_request_def split: post_outcome.split exc.split sum.split)

lemma send_telemetry_result:
  "fst (send_telemetry net w srv tok la lo ba ac al) =
     (case outcome net of
        Raises (RequestException e) \<Rightarrow> Inr None
      | Raises x \<Rightarrow> Inl x
      | Responds r \<Rightarrow>
          if 400 \<le> status_code r \<and> status_code r < 600 then Inr None else Inr (Some r))"
  by (simp add: send_telemetry_def requests_post_def raise_for_status_def print_def Let_def
      split: post_outcome.split exc.split sum.split)

lemma random_random_range: "0 \<le> random_random bits \<and> random_random bits < 1"
proof -
  have "bits mod 9007199254740992 < 9007199254740992" by simp
  then have "real (bits mod 9007199254740992) < 9007199254740992"
    by (metis of_nat_less_iff of_nat_numeral)
  then show ?thesis by (simp add: random_random_def)
qed

lemma random_uniform_range:
  assumes "a \<le> b"
  shows "a \<le> random_uniform a b bits \<and> random_uniform a b bits \<le> b"
proof -
  have u: "0 \<le> random_random bits" "random_random bits \<le> 1"
    using random_random_range [of bits] by simp_all
  have "0 \<le> (b - a) * random_random bits"
    using assms u(1) by simp
  moreover have "(b - a) * random_random bits \<le> (b - a) * 1"
    using assms u(2) by (intro mult_left_mono) simp_all
  ultimately show ?thesis by (simp add: random_uniform_def)
qed

lemma random_randint_range:
  assumes "a \<le> b"
  shows "a \<le> random_randint a b bits \<and> random_randint a b bits \<le> b"
proof -
  have "0 < b - a + 1" using assms by simp
  then have "0 \<le> int bits mod (b - a + 1)" "int bits mod (b - a + 1) < b - a + 1"
    by (rule pos_mod_sign, rule pos_mod_bound)
  then show ?thesis unfolding random_randint_def by linarith
qed

lemma drain_range:
  "1 / 10 \<le> random_uniform (1 / 10) (1 / 2) bits \<and> random_uniform (1 / 10) (1 / 2) bits \<le> 1 / 2"
  by (rule random_uniform_range) simp

lemma step_range:
  "- (1 / 1000) \<le> random_uniform (- (1 / 1000)) (1 / 1000) bits \<and>
   random_uniform (- (1 / 1000)) (1 / 1000) bits \<le> 1 / 1000"
  by (rule random_uniform_range) simp

lemma drained_bounds: "0 \<le> drained e st" "0 \<le> battery st \<Longrightarrow> drained e st \<le> battery st"
  "battery st \<le> 100 \<Longrightarrow> drained e st \<le> 100"
  using drain_range [of "raw_drain e"] by (simp_all add: drained_def)

lemma tick_request_eq:
  "tick_request srv tok e st w =
     telemetry_request w srv tok
       (py_round (current_lat st + random_uniform (- (1 / 1000)) (1 / 1000) (raw_lat e)) 6)
       (py_round (current_lon st + random_uniform (- (1 / 1000)) (1 / 1000) (raw_lon e)) 6)
       (Some (py_int (drained e st)))
       (Some (random_randint 5 20 (raw_accuracy e)))
       (Some (random_randint 50 100 (raw_altitude e)))"
  by (simp add: tick_request_def telemetry_request_def)

lemma tick_send:
  "tick srv tok ival e st w =
     (case send_telemetry (reply e) w srv tok
             (py_round (current_lat st + random_uniform (- (1 / 1000)) (1 / 1000) (raw_lat e)) 6)
             (py_round (current_lon st + random_uniform (- (1 / 1000)) (1 / 1000) (raw_lon e)) 6)
             (Some (py_int (drained e st)))
             (Some (random_randint 5 20 (raw_accuracy e)))
             (Some (random_randint 50 100 (raw_altitude e))) of
        (Inl x, w1) \<Rightarrow> (Inl x, w1)
      | (Inr resp, w1) \<Rightarrow>
          (let st1 = st\<lparr>current_lat := current_lat st + random_uniform (- (1 / 1000)) (1 / 1000) (raw_lat e),
                         current_lon := current_lon st + random_uniform (- (1 / 1000)) (1 / 1000) (raw_lon e),
                         battery := drained e st\<rparr>;
               (st2, w2) =
                 (if truthy_response resp \<and> status_code (the resp) = 200
                  then (st1\<lparr>update_count := update_count st + 1\<rparr>,
                        print (UpdateLine (clock w1) (update_count st + 1) (current_lat st1)
                                 (current_lon st1) (py_int (drained e st))
                                 (random_randint 5 20 (raw_accuracy e))) w1)
                  else (st1, print (FailedUpdate (update_count st + 1)) w1))
           in case time_sleep ival (overslept e) w2 of
                (Inl x, w3) \<Rightarrow> (Inl x, w3)
              | (Inr _, w3) \<Rightarrow> (Inr st2, w3)))"
  by (simp add: tick_def drained_def Let_def split: prod.split sum.split)

lemma tick_world:
  "posts (snd (tick srv tok ival e st w)) = posts w @ [tick_request srv tok e st w] \<and>
   stderr (snd (tick srv tok ival e st w)) = stderr w \<and>
   stdout (snd (tick srv tok ival e st w)) = stdout w @
     (case outcome (reply e) of
        Raises (RequestException x) \<Rightarrow>
          [ErrorSendingTelemetry (RequestException x), FailedUpdate (update_count st + 1)]
      | Raises _ \<Rightarrow> []
      | Responds r \<Rightarrow>
          if 400 \<le> status_code r \<and> status_code r < 600
          then [ErrorSendingTelemetry (RequestException (HTTPError r)), FailedUpdate (update_count st + 1)]
          else if status_code r = 200
          then [UpdateLine (clock w + took (reply e)) (update_count st + 1)
                  (current_lat st + random_uniform (- (1 / 1000)) (1 / 1000) (raw_lat e))
                  (current_lon st + random_uniform (- (1 / 1000)) (1 / 1000) (raw_lon e))
                  (py_int (drained e st)) (random_randint 5 20 (raw_accuracy e))]
          else [FailedUpdate (update_count st + 1)])"
proof -
  let ?s = "send_telemetry (reply e) w srv tok
             (py_round (current_lat st + random_uniform (- (1 / 1000)) (1 / 1000) (raw_lat e)) 6)
             (py_round (current_lon st + random_uniform (- (1 / 1000)) (1 / 1000) (raw_lon e)) 6)
             (Some (py_int (drained e st)))
             (Some (random_randint 5 20 (raw_accuracy e)))
             (Some (random_randint 50 100 (raw_altitude e)))"
  obtain res w1 where s: "?s = (res, w1)" by (cases ?s)
  have r: "res = (case outcome (reply e) of
        Raises (RequestException e) \<Rightarrow> Inr None
      | Raises x \<Rightarrow> Inl x
      | Responds r \<Rightarrow>
          if 400 \<le> status_code r \<and> status_code r < 600 then Inr None else Inr (Some r))"
    using send_telemetry_result [of "reply e" w srv tok
        "py_round (current_lat st + random_uniform (- (1 / 1000)) (1 / 1000) (raw_lat e)) 6"
        "py_round (current_lon st + random_uniform (- (1 / 1000)) (1 / 1000) (raw_lon e)) 6"
        "Some (py_int (drained e st))" "Some (random_randint 5 20 (raw_accuracy e))"
        "Some (random_randint 50 100 (raw_altitude e))"] s by simp
  have w1: "w1 = w\<lparr>clock := clock w + took (reply e),
       posts := posts w @ [tick_request srv tok e st w],
       stdout := stdout w @
         (case outcome (reply e) of
            Raises (RequestException e) \<Rightarrow> [ErrorSendingTelemetry (RequestException e)]
          | Raises _ \<Rightarrow> []
          | Responds r \<Rightarrow>
              if 400 \<le> status_code r \<and> status_code r < 600
              then [ErrorSendingTelemetry (RequestException (HTTPError r))] else [])\<rparr>"
    using send_telemetry_world [of "reply e" w srv tok
        "py_round (current_lat st + random_uniform (- (1 / 1000)) (1 / 1000) (raw_lat e)) 6"
        "py_round (current_lon st + random_uniform (- (1 / 1000)) (1 / 1000) (raw_lon e)) 6"
        "Some (py_int (drained e st))" "Some (random_randint 5 20 (raw_accuracy e))"
        "Some (random_randint 50 100 (raw_altitude e))"] s by (simp add: tick_request_eq)
  show ?thesis
    unfolding tick_send s
    by (simp add: r w1 Let_def print_def time_sleep_def truthy_response_def ok_def raise_for_status_def
        split: post_outcome.split exc.split)
qed

lemma tick_posts: "posts (snd (tick srv tok ival e st w)) = posts w @ [tick_request srv tok e st w]"
  by (simp add: tick_world)

lemma tick_length_posts: "length (posts (snd (tick srv tok ival e st w))) = length (posts w) + 1"
  by (simp add: tick_posts)

lemma tick_Inr:
  assumes "tick srv tok ival e st w = (Inr st', w')"
  shows "current_lat st' = current_lat st + random_uniform (- (1 / 1000)) (1 / 1000) (raw_lat e)"
    and "current_lon st' = current_lon st + random_uniform (- (1 / 1000)) (1 / 1000) (raw_lon e)"
    and "battery st' = drained e st"
    and "update_count st' = update_count st + (if answered_200 (reply e) then 1 else 0)"
    and "clock w' = clock w + took (reply e) + real_of_int ival + overslept e"
    and "0 \<le> ival \<and> ival \<le> 9223372036"
    and "post_returns (reply e)"
proof -
  let ?s = "send_telemetry (reply e) w srv tok
             (py_round (current_lat st + random_uniform (- (1 / 1000)) (1 / 1000) (raw_lat e)) 6)
             (py_round (current_lon st + random_uniform (- (1 / 1000)) (1 / 1000) (raw_lon e)) 6)
             (Some (py_int (drained e st)))
             (Some (random_randint 5 20 (raw_accuracy e)))
             (Some (random_randint 50 100 (raw_altitude e)))"
  obtain res w1 where s: "?s = (res, w1)" by (cases ?s)
  have r: "res = (case outcome (reply e) of
        Raises (RequestException e) \<Rightarrow> Inr None
      | Raises x \<Rightarrow> Inl x
      | Responds r \<Rightarrow>
          if 400 \<le> status_code r \<and> status_code r < 600 then Inr None else Inr (Some r))"
    using send_telemetry_result [of "reply e" w srv tok
        "py_round (current_lat st + random_uniform (- (1 / 1000)) (1 / 1000) (raw_lat e)) 6"
        "py_round (current_lon st + random_uniform (- (1 / 1000)) (1 / 1000) (raw_lon e)) 6"
        "Some (py_int (drained e st))" "Some (random_randint 5 20 (raw_accuracy e))"
        "Some (random_randint 50 100 (raw_altitude e))"] s by simp
  have c: "clock w1 = clock w + took (reply e)"
    using send_telemetry_world [of "reply e" w srv tok
        "py_round (current_lat st + random_uniform (- (1 / 1000)) (1 / 1000) (raw_lat e)) 6"
        "py_round (current_lon st + random_uniform (- (1 / 1000)) (1 / 1000) (raw_lon e)) 6"
        "Some (py_int (drained e st))" "Some (random_randint 5 20 (raw_accuracy e))"
        "Some (random_randint 50 100 (raw_altitude e))"] s by simp
  from assms r c
  have "current_lat st' = current_lat st + random_uniform (- (1 / 1000)) (1 / 1000) (raw_lat e) \<and>
        current_lon st' = current_lon st + random_uniform (- (1 / 1000)) (1 / 1000) (raw_lon e) \<and>
        battery st' = drained e st \<and>
        update_count st' = update_count st + (if answered_200 (reply e) then 1 else 0) \<and>
        clock w' = clock w + took (reply e) + real_of_int ival + overslept e \<and>
        (0 \<le> ival \<and> ival \<le> 9223372036) \<and> post_returns (reply e)"
    unfolding tick_send s
    by (auto simp add: Let_def time_sleep_def print_def answered_200_def post_returns_def
        truthy_response_def ok_def raise_for_status_def
        split: sum.splits prod.splits if_splits post_outcome.splits exc.splits option.splits)
  then show "current_lat st' = current_lat st + random_uniform (- (1 / 1000)) (1 / 1000) (raw_lat e)"
    and "current_lon st' = current_lon st + random_uniform (- (1 / 1000)) (1 / 1000) (raw_lon e)"
    and "battery st' = drained e st"
    and "update_count st' = update_count st + (if answered_200 (reply e) then 1 else 0)"
    and "clock w' = clock w + took (reply e) + real_of_int ival + overslept e"
    and "0 \<le> ival \<and> ival \<le> 9223372036"
    and "post_returns (reply e)"
    by simp_all
qed

lemma tick_returns:
  assumes "post_returns (reply e)" and "0 \<le> ival" and "ival \<le> 9223372036"
  shows "\<exists>st' w'. tick srv tok ival e st w = (Inr st', w')"
proof -
  let ?s = "send_telemetry (reply e) w srv tok
             (py_round (current_lat st + random_uniform (- (1 / 1000)) (1 / 1000) (raw_lat e)) 6)
             (py_round (current_lon st + random_uniform (- (1 / 1000)) (1 / 1000) (raw_lon e)) 6)
             (Some (py_int (drained e st)))
             (Some (random_randint 5 20 (raw_accuracy e)))
             (Some (random_randint 50 100 (raw_altitude e)))"
  obtain res w1 where s: "?s = (res, w1)" by (cases ?s)
  have r: "res = (case outcome (reply e) of
        Raises (RequestException e) \<Rightarrow> Inr None
      | Raises x \<Rightarrow> Inl x
      | Responds r \<Rightarrow>
          if 400 \<le> status_code r \<and> status_code r < 600 then Inr None else Inr (Some r))"
    using send_telemetry_result [of "reply e" w srv tok
        "py_round (current_lat st + random_uniform (- (1 / 1000)) (1 / 1000) (raw_lat e)) 6"
        "py_round (current_lon st + random_uniform (- (1 / 1000)) (1 / 1000) (raw_lon e)) 6"
        "Some (py_int (drained e st))" "Some (random_randint 5 20 (raw_accuracy e))"
        "Some (random_randint 50 100 (raw_altitude e))"] s by simp
  from assms r show ?thesis
    unfolding tick_send s
    by (auto simp add: Let_def time_sleep_def post_returns_def
        split: sum.splits prod.splits if_splits post_outcome.splits exc.splits)
qed

lemma tick_raises:
  assumes "ival < 0 \<or> 9223372036 < ival" and "post_returns (reply e)"
  shows "fst (tick srv tok ival e st w) =
           Inl (if ival \<le> - 9223372037 \<or> 9223372037 \<le> ival then OverflowError else ValueError)"
proof -
  let ?s = "send_telemetry (reply e) w srv tok
             (py_round (current_lat st + random_uniform (- (1 / 1000)) (1 / 1000) (raw_lat e)) 6)
             (py_round (current_lon st + random_uniform (- (1 / 1000)) (1 / 1000) (raw_lon e)) 6)
             (Some (py_int (drained e st)))
             (Some (random_randint 5 20 (raw_accuracy e)))
             (Some (random_randint 50 100 (raw_altitude e)))"
  obtain res w1 where s: "?s = (res, w1)" by (cases ?s)
  have r: "res = (case outcome (reply e) of
        Raises (RequestException e) \<Rightarrow> Inr None
      | Raises x \<Rightarrow> Inl x
      | Responds r \<Rightarrow>
          if 400 \<le> status_code r \<and> status_code r < 600 then Inr None else Inr (Some r))"
    using send_telemetry_result [of "reply e" w srv tok
        "py_round (current_lat st + random_uniform (- (1 / 1000)) (1 / 1000) (raw_lat e)) 6"
        "py_round (current_lon st + random_uniform (- (1 / 1000)) (1 / 1000) (raw_lon e)) 6"
        "Some (py_int (drained e st))" "Some (random_randint 5 20 (raw_accuracy e))"
        "Some (random_randint 50 100 (raw_altitude e))"] s by simp
  from assms r show ?thesis
    unfolding tick_send s
    by (auto simp add: Let_def time_sleep_def post_returns_def
        split: sum.splits prod.splits if_splits post_outcome.splits exc.splits)
qed

lemma py_int_bounds: "0 \<le> x \<Longrightarrow> x \<le> 100 \<Longrightarrow> 0 \<le> py_int x \<and> py_int x \<le> 100"
  by (simp add: py_int_def floor_le_iff)

lemma py_int_mono: "0 \<le> x \<Longrightarrow> x \<le> y \<Longrightarrow> 0 \<le> py_int x \<and> py_int x \<le> py_int y"
  by (simp add: py_int_def floor_mono)

lemma tick_request_fields:
  "map_of (data (tick_request srv tok e st w)) ''batt'' = Some (JInt (py_int (drained e st)))"
  "batt_sent (tick_request srv tok e st w) = py_int (drained e st)"
  "int_field_in (data (tick_request srv tok e st w)) ''acc'' 5 20"
  "int_field_in (data (tick_request srv tok e st w)) ''alt'' 50 100"
  "battery st \<le> 100 \<Longrightarrow> int_field_in (data (tick_request srv tok e st w)) ''batt'' 0 100"
proof -
  show "map_of (data (tick_request srv tok e st w)) ''batt'' = Some (JInt (py_int (drained e st)))"
    by (simp add: tick_request_def payload_lookup)
  then show "batt_sent (tick_request srv tok e st w) = py_int (drained e st)"
    by (simp add: batt_sent_def)
  show "int_field_in (data (tick_request srv tok e st w)) ''acc'' 5 20"
    using random_randint_range [of 5 20 "raw_accuracy e"]
    by (simp add: tick_request_def payload_lookup int_field_in_def)
  show "int_field_in (data (tick_request srv tok e st w)) ''alt'' 50 100"
    using random_randint_range [of 50 100 "raw_altitude e"]
    by (simp add: tick_request_def payload_lookup int_field_in_def)
  assume "battery st \<le> 100"
  then have "0 \<le> py_int (drained e st) \<and> py_int (drained e st) \<le> 100"
    using drained_bounds(1,3) [where e = e and st = st] by (intro py_int_bounds)
  then show "int_field_in (data (tick_request srv tok e st w)) ''batt'' 0 100"
    by (simp add: tick_request_def payload_lookup int_field_in_def)
qed

lemma sim_loop_stop:
  "\<not> clock w - start < real_of_int dur \<Longrightarrow> sim_loop srv tok dur ival start envs st w = Some (Inr st, w)"
  by (cases envs) simp_all

lemma sim_loop_posts:
  assumes "sim_loop srv tok dur ival start envs st w = Some (r, w')"
    and "0 \<le> battery st" and "battery st \<le> 100"
  shows "\<exists>reqs. posts w' = posts w @ reqs \<and> list_all sim_fields_ok reqs \<and>
           sorted_wrt (\<ge>) (map batt_sent reqs) \<and>
           (\<forall>q\<in>set reqs. batt_sent q \<le> py_int (battery st))"
  using assms
proof (induction envs arbitrary: st w)
  case Nil
  then show ?case by (simp split: if_splits)
next
  case (Cons e es)
  show ?case
  proof (cases "clock w - start < real_of_int dur")
    case False
    with Cons.prems show ?thesis by simp
  next
    case True
    let ?q = "tick_request srv tok e st w"
    obtain res w1 where t: "tick srv tok ival e st w = (res, w1)"
      by (cases "tick srv tok ival e st w")
    have p1: "posts w1 = posts w @ [?q]"
      using tick_posts [of srv tok ival e st w] t by simp
    have f1: "sim_fields_ok ?q"
      using tick_request_fields(3-5) [where srv = srv and tok = tok and e = e and st = st and w = w] Cons.prems(3) by (simp add: sim_fields_ok_def)
    have d: "0 \<le> drained e st" "drained e st \<le> battery st" "drained e st \<le> 100"
      using drained_bounds [where e = e and st = st] Cons.prems(2,3) by simp_all
    have b1: "batt_sent ?q = py_int (drained e st)" by (rule tick_request_fields(2))
    have m: "py_int (drained e st) \<le> py_int (battery st)"
      using py_int_mono [OF d(1) d(2)] by simp
    show ?thesis
    proof (cases res)
      case (Inl x)
      with Cons.prems(1) True t have "w' = w1" by simp
      with p1 f1 b1 m show ?thesis by simp
    next
      case (Inr st1)
      with Cons.prems(1) True t
      have l: "sim_loop srv tok dur ival start es st1 w1 = Some (r, w')" by simp
      have s1: "battery st1 = drained e st"
        using t Inr tick_Inr(3) by blast
      from Cons.IH [OF l] s1 d obtain reqs where q:
        "posts w' = posts w1 @ reqs" "list_all sim_fields_ok reqs"
        "sorted_wrt (\<ge>) (map batt_sent reqs)"
        "\<forall>q\<in>set reqs. batt_sent q \<le> py_int (drained e st)"
        by auto
      have "posts w' = posts w @ (?q # reqs)" using p1 q(1) by simp
      moreover have "list_all sim_fields_ok (?q # reqs)" using f1 q(2) by simp
      moreover have "sorted_wrt (\<ge>) (map batt_sent (?q # reqs))" using q(3,4) b1 by simp
      moreover have "\<forall>q\<in>set (?q # reqs). batt_sent q \<le> py_int (battery st)"
        using q(4) b1 m by auto
      ultimately show ?thesis by blast
    qed
  qed
qed

lemma sim_loop_grows:
  assumes "sim_loop srv tok dur ival start envs st w = Some (r, w')"
  shows "length (posts w) \<le> length (posts w')"
  using assms
proof (induction envs arbitrary: st w)
  case Nil
  then show ?case by (simp split: if_splits)
next
  case (Cons e es)
  show ?case
  proof (cases "clock w - start < real_of_int dur")
    case False
    with Cons.prems show ?thesis by simp
  next
    case True
    obtain res w1 where t: "tick srv tok ival e st w = (res, w1)"
      by (cases "tick srv tok ival e st w")
    have p1: "length (posts w1) = length (posts w) + 1"
      using tick_length_posts [of srv tok ival e st w] t by simp
    show ?thesis
    proof (cases res)
      case (Inl x)
      with Cons.prems(1) True t have "w' = w1" by simp
      with p1 show ?thesis by simp
    next
      case (Inr st1)
      with Cons.prems(1) True t
      have "sim_loop srv tok dur ival start es st1 w1 = Some (r, w')" by simp
      from Cons.IH [OF this] p1 show ?thesis by simp
    qed
  qed
qed


lemma sim_loop_battery:
  assumes "sim_loop srv tok dur ival start envs st w = Some (Inr st', w')"
    and "0 \<le> battery st"
  shows "0 \<le> battery st' \<and> battery st' \<le> battery st"
  using assms
proof (induction envs arbitrary: st w)
  case Nil
  then show ?case by (simp split: if_splits)
next
  case (Cons e es)
  show ?case
  proof (cases "clock w - start < real_of_int dur")
    case False
    with Cons.prems show ?thesis by simp
  next
    case True
    obtain res w1 where t: "tick srv tok ival e st w = (res, w1)"
      by (cases "tick srv tok ival e st w")
    show ?thesis
    proof (cases res)
      case (Inl x)
      with Cons.prems(1) True t show ?thesis by simp
    next
      case (Inr st1)
      with Cons.prems(1) True t
      have l: "sim_loop srv tok dur ival start es st1 w1 = Some (Inr st', w')" by simp
      have b: "battery st1 = drained e st"
        using t Inr tick_Inr(3) by blast
      have "0 \<le> battery st1" "battery st1 \<le> battery st"
        using b drained_bounds(1,2) [where e = e and st = st] Cons.prems(2) by simp_all
      then show ?thesis
        using Cons.IH [OF l] by fastforce
    qed
  qed
qed

lemma sim_loop_completes:
  assumes "0 \<le> ival" and "ival \<le> 9223372036" and "0 < d"
    and "\<forall>e\<in>set envs. post_returns (reply e) \<and> d \<le> real_of_int ival + took (reply e) + overslept e"
    and "real_of_int dur - (clock w - start) \<le> d * real (length envs)"
  shows "\<exists>st' w'. sim_loop srv tok dur ival start envs st w = Some (Inr st', w')"
  using assms
proof (induction envs arbitrary: st w)
  case Nil
  then show ?case by simp
next
  case (Cons e es)
  show ?case
  proof (cases "clock w - start < real_of_int dur")
    case False
    then show ?thesis by simp
  next
    case True
    have e: "post_returns (reply e)" "d \<le> real_of_int ival + took (reply e) + overslept e"
      using Cons.prems(4) by simp_all
    from tick_returns [OF e(1) Cons.prems(1,2), of srv tok st w]
    obtain st1 w1 where t: "tick srv tok ival e st w = (Inr st1, w1)" by auto
    have c: "clock w1 = clock w + took (reply e) + real_of_int ival + overslept e"
      using t tick_Inr(5) by blast
    have "clock w + d \<le> clock w1" using c e(2) by linarith
    moreover have "d * real (length (e # es)) = d * real (length es) + d"
      by (simp add: algebra_simps)
    ultimately have "real_of_int dur - (clock w1 - start) \<le> d * real (length es)"
      using Cons.prems(5) by linarith
    moreover have "\<forall>e\<in>set es. post_returns (reply e) \<and> d \<le> real_of_int ival + took (reply e) + overslept e"
      using Cons.prems(4) by simp
    ultimately obtain st' w' where "sim_loop srv tok dur ival start es st1 w1 = Some (Inr st', w')"
      using Cons.IH [of w1 st1] Cons.prems(1,2,3) by blast
    with True t show ?thesis by simp
  qed
qed

lemma simulate_movement_Some:
  "simulate_movement envs w srv tok la lo dur ival = Some (r, w') \<Longrightarrow>
     \<exists>r0 w0. sim_loop srv tok dur ival (clock w) envs
        \<lparr>current_lat = la, current_lon = lo, battery = 100, update_count = 0\<rparr>
        (w\<lparr>stdout := stdout w @ [StartingSimulation, InitialPosition la lo, DurationInterval dur ival, Dashes]\<rparr>)
        = Some (r0, w0) \<and> posts w' = posts w0"
  by (auto simp add: simulate_movement_def Let_def print_def split: option.splits sum.splits prod.splits)


lemma simulate_movement_completes:
  "sim_loop srv tok dur ival (clock w) envs
        \<lparr>current_lat = la, current_lon = lo, battery = 100, update_count = 0\<rparr>
        (w\<lparr>stdout := stdout w @ [StartingSimulation, InitialPosition la lo, DurationInterval dur ival, Dashes]\<rparr>)
        = Some (Inr st, w0) \<Longrightarrow>
   simulate_movement envs w srv tok la lo dur ival =
     Some (Inr (), w0\<lparr>stdout := stdout w0 @ [Dashes, SimulationComplete (update_count st)]\<rparr>)"
  by (simp add: simulate_movement_def Let_def print_def)

lemma simulate_movement_raises:
  "sim_loop srv tok dur ival (clock w) envs
        \<lparr>current_lat = la, current_lon = lo, battery = 100, update_count = 0\<rparr>
        (w\<lparr>stdout := stdout w @ [StartingSimulation, InitialPosition la lo, DurationInterval dur ival, Dashes]\<rparr>)
        = Some (Inl x, w0) \<Longrightarrow>
   simulate_movement envs w srv tok la lo dur ival = Some (Inl x, w0)"
  by (simp add: simulate_movement_def Let_def print_def)


lemma simulate_movement_returns:
  assumes "0 \<le> ival" and "ival \<le> 9223372036" and "0 < d"
    and "\<forall>e\<in>set envs. post_returns (reply e) \<and> d \<le> real_of_int ival + took (reply e) + overslept e"
    and "real_of_int dur \<le> d * real (length envs)"
  shows "\<exists>st w0. sim_loop srv tok dur ival (clock w) envs
        \<lparr>current_lat = la, current_lon = lo, battery = 100, update_count = 0\<rparr>
        (w\<lparr>stdout := stdout w @ [StartingSimulation, InitialPosition la lo, DurationInterval dur ival, Dashes]\<rparr>)
        = Some (Inr st, w0) \<and>
      simulate_movement envs w srv tok la lo dur ival =
        Some (Inr (), w0\<lparr>stdout := stdout w0 @ [Dashes, SimulationComplete (update_count st)]\<rparr>)"
proof -
  let ?w = "w\<lparr>stdout := stdout w @ [StartingSimulation, InitialPosition la lo, DurationInterval dur ival, Dashes]\<rparr>"
  let ?st = "\<lparr>current_lat = la, current_lon = lo, battery = 100, update_count = 0\<rparr>"
  have "real_of_int dur - (clock ?w - clock w) \<le> d * real (length envs)"
    using assms(5) by simp
  from sim_loop_completes [OF assms(1-4) this, of srv tok ?st]
  obtain st' w0 where l: "sim_loop srv tok dur ival (clock w) envs ?st ?w = Some (Inr st', w0)"
    by blast
  from l simulate_movement_completes [OF l] show ?thesis by blast
qed

lemma simulate_movement_no_tick:
  assumes "simulate_movement envs w srv tok la lo dur ival = Some (r, w')"
  shows "(posts w' = posts w) = (dur \<le> 0)"
proof -
  let ?w = "w\<lparr>stdout := stdout w @ [StartingSimulation, InitialPosition la lo, DurationInterval dur ival, Dashes]\<rparr>"
  let ?st = "\<lparr>current_lat = la, current_lon = lo, battery = 100, update_count = 0\<rparr>"
  from simulate_movement_Some [OF assms]
  obtain r0 w0 where l: "sim_loop srv tok dur ival (clock w) envs ?st ?w = Some (r0, w0)"
    and p: "posts w' = posts w0" by blast
  show ?thesis
  proof (cases "dur \<le> 0")
    case True
    then have "\<not> clock ?w - clock w < real_of_int dur" by simp
    from sim_loop_stop [OF this] l have "w0 = ?w" by simp
    with p True show ?thesis by simp
  next
    case False
    then have c: "clock ?w - clock w < real_of_int dur" by simp
    have "length (posts w) < length (posts w0)"
    proof (cases envs)
      case Nil
      with l c show ?thesis by simp
    next
      case (Cons e es)
      obtain res w1 where t: "tick srv tok ival e ?st ?w = (res, w1)"
        by (cases "tick srv tok ival e ?st ?w")
      have p1: "length (posts w1) = length (posts w) + 1"
        using tick_length_posts [of srv tok ival e ?st ?w] t by simp
      show ?thesis
      proof (cases res)
        case (Inl x)
        with l c t Cons have "w0 = w1" by simp
        with p1 show ?thesis by simp
      next
        case (Inr st1)
        with l c t Cons have "sim_loop srv tok dur ival (clock w) es st1 w1 = Some (r0, w0)" by simp
        from sim_loop_grows [OF this] p1 show ?thesis by simp
      qed
    qed
    with p False show ?thesis by auto
  qed
qed

lemma batt_sent_bounds: "int_field_in (data q) ''batt'' lo hi \<Longrightarrow> lo \<le> batt_sent q \<and> batt_sent q \<le> hi"
  by (auto simp add: int_field_in_def batt_sent_def split: option.splits json.splits)

text \<open>The defining equations needed to run the script on a concrete input.\<close>

lemmas script_defs = main_def parse_args_def parser_error_def send_telemetry_def requests_post_def
  raise_for_status_def print_def telemetry_payload_def py_int_def Let_def truthy_response_def ok_def
  DEFAULT_SERVER_def truthy_int_def simulate_movement_def tick_def time_sleep_def
  random_random_def random_uniform_def random_randint_def py_round_def round_half_even_def

subsection \<open>The payload\<close>

text \<open>
  Claim C1. Whatever the network answers, a call of \<open>send_telemetry\<close> posts exactly one
  request whose payload holds \<open>_type = "location"\<close>, \<open>lat\<close>, \<open>lon\<close> and
  \<open>tst\<close> (the clock at the call, truncated to an int), and holds \<open>batt\<close>,
  \<open>acc\<close>, \<open>alt\<close> exactly when the corresponding argument is not \<open>None\<close>: a
  key that was not supplied is absent, not null or zero, and no other key occurs.
\<close>

theorem send_telemetry_payload_fields:
  "\<exists>req. posts (snd (send_telemetry net w srv tok la lo ba ac al)) = posts w @ [req] \<and>
     map_of (data req) ''_type'' = Some (JStr ''location'') \<and>
     map_of (data req) ''lat'' = Some (JFloat la) \<and>
     map_of (data req) ''lon'' = Some (JFloat lo) \<and>
     map_of (data req) ''tst'' = Some (JInt (py_int (clock w))) \<and>
     map_of (data req) ''batt'' = map_option JInt ba \<and>
     map_of (data req) ''acc'' = map_option JInt ac \<and>
     map_of (data req) ''alt'' = map_option JInt al \<and>
     (''batt'' \<in> fst ` set (data req)) = (ba \<noteq> None) \<and>
     (''acc'' \<in> fst ` set (data req)) = (ac \<noteq> None) \<and>
     (''alt'' \<in> fst ` set (data req)) = (al \<noteq> None) \<and>
     fst ` set (data req) \<subseteq> {''_type'', ''lat'', ''lon'', ''tst'', ''batt'', ''acc'', ''alt''}"
proof -
  let ?req = "telemetry_request w srv tok la lo ba ac al"
  have "posts (snd (send_telemetry net w srv tok la lo ba ac al)) = posts w @ [?req]"
    by (simp add: send_telemetry_world)
  moreover have "data ?req = telemetry_payload (py_int (clock w)) la lo ba ac al"
    by (simp add: telemetry_request_def)
  ultimately show ?thesis
    by (intro exI [of _ ?req]) (simp add: payload_lookup payload_keys)
qed

text \<open>
  A call with a battery of 0 and an altitude but no accuracy, on a network that times out:
  \<open>batt\<close> and \<open>alt\<close> are in the payload, \<open>acc\<close> is not.
\<close>

theorem send_telemetry_payload_fields_witness:
  "\<exists>req. posts (snd (send_telemetry \<lparr>outcome = Raises (RequestException Timeout), took = 3\<rparr>
                       \<lparr>clock = 1000, stdout = [], stderr = [], posts = []\<rparr>
                       DEFAULT_SERVER ''T'' 34 (- 118) (Some 0) None (Some 70))) = [req] \<and>
     map_of (data req) ''_type'' = Some (JStr ''location'') \<and>
     map_of (data req) ''lat'' = Some (JFloat 34) \<and>
     map_of (data req) ''lon'' = Some (JFloat (- 118)) \<and>
     map_of (data req) ''tst'' = Some (JInt 1000) \<and>
     map_of (data req) ''batt'' = Some (JInt 0) \<and>
     map_of (data req) ''acc'' = None \<and>
     map_of (data req) ''alt'' = Some (JInt 70) \<and>
     ''batt'' \<in> fst ` set (data req) \<and>
     ''acc'' \<notin> fst ` set (data req) \<and>
     ''alt'' \<in> fst ` set (data req)"
  using send_telemetry_payload_fields [of "\<lparr>outcome = Raises (RequestException Timeout), took = 3\<rparr>"
      "\<lparr>clock = 1000, stdout = [], stderr = [], posts = []\<rparr>" DEFAULT_SERVER "''T''" 34 "- 118"
      "Some 0" None "Some 70"]
  by (auto simp add: py_int_def)

subsection \<open>Success and failure of a send\<close>




text \<open>
  Claim C3, as amended. Every call makes exactly one POST. When the POST ends in an exception
  of the \<open>requests\<close> library (connection error, timeout) or in a response with a status
  from 400 to 599, the sender prints one diagnostic line and returns \<open>None\<close>; nothing is
  raised to the caller. A response with any other status is returned to the caller as it is, and
  nothing is printed.
\<close>

theorem send_telemetry_failure_sentinel:
  "length (posts (snd (send_telemetry net w srv tok la lo ba ac al))) = length (posts w) + 1 \<and>
   (outcome net = Raises (RequestException x) \<longrightarrow>
      send_telemetry net w srv tok la lo ba ac al =
        (Inr None, w\<lparr>clock := clock w + took net,
                      posts := posts w @ [telemetry_request w srv tok la lo ba ac al],
                      stdout := stdout w @ [ErrorSendingTelemetry (RequestException x)]\<rparr>)) \<and>
   (outcome net = Responds r \<and> 400 \<le> status_code r \<and> status_code r < 600 \<longrightarrow>
      send_telemetry net w srv tok la lo ba ac al =
        (Inr None, w\<lparr>clock := clock w + took net,
                      posts := posts w @ [telemetry_request w srv tok la lo ba ac al],
                      stdout := stdout w @ [ErrorSendingTelemetry (RequestException (HTTPError r))]\<rparr>)) \<and>
   (outcome net = Responds r \<and> \<not> (400 \<le> status_code r \<and> status_code r < 600) \<longrightarrow>
      send_telemetry net w srv tok la lo ba ac al =
        (Inr (Some r), w\<lparr>clock := clock w + took net,
                          posts := posts w @ [telemetry_request w srv tok la lo ba ac al]\<rparr>))"
proof -
  have "send_telemetry net w srv tok la lo ba ac al =
          (fst (send_telemetry net w srv tok la lo ba ac al), snd (send_telemetry net w srv tok la lo ba ac al))"
    by simp
  then show ?thesis
    unfolding send_telemetry_world send_telemetry_result
    by (auto split: post_outcome.splits exc.splits)
qed

text \<open>
  A timeout and a 503 response end in the sentinel with one diagnostic; a 302 response is
  returned without one.
\<close>

theorem send_telemetry_failure_sentinel_witness:
  "send_telemetry \<lparr>outcome = Raises (RequestException Timeout), took = 3\<rparr>
      \<lparr>clock = 1000, stdout = [], stderr = [], posts = []\<rparr>
      DEFAULT_SERVER ''T'' 34 (- 118) None None None =
     (Inr None,
      \<lparr>clock = 1003, stdout = [ErrorSendingTelemetry (RequestException Timeout)], stderr = [],
        posts = [telemetry_request \<lparr>clock = 1000, stdout = [], stderr = [], posts = []\<rparr>
                   DEFAULT_SERVER ''T'' 34 (- 118) None None None]\<rparr>) \<and>
   send_telemetry \<lparr>outcome = Responds \<lparr>status_code = 503, resp_text = ''busy''\<rparr>, took = 3\<rparr>
      \<lparr>clock = 1000, stdout = [], stderr = [], posts = []\<rparr>
      DEFAULT_SERVER ''T'' 34 (- 118) None None None =
     (Inr None,
      \<lparr>clock = 1003,
        stdout = [ErrorSendingTelemetry
                    (RequestException (HTTPError \<lparr>status_code = 503, resp_text = ''busy''\<rparr>))],
        stderr = [],
        posts = [telemetry_request \<lparr>clock = 1000, stdout = [], stderr = [], posts = []\<rparr>
                   DEFAULT_SERVER ''T'' 34 (- 118) None None None]\<rparr>) \<and>
   send_telemetry \<lparr>outcome = Responds \<lparr>status_code = 302, resp_text = ''moved''\<rparr>, took = 3\<rparr>
      \<lparr>clock = 1000, stdout = [], stderr = [], posts = []\<rparr>
      DEFAULT_SERVER ''T'' 34 (- 118) None None None =
     (Inr (Some \<lparr>status_code = 302, resp_text = ''moved''\<rparr>),
      \<lparr>clock = 1003, stdout = [], stderr = [],
        posts = [telemetry_request \<lparr>clock = 1000, stdout = [], stderr = [], posts = []\<rparr>
                   DEFAULT_SERVER ''T'' 34 (- 118) None None None]\<rparr>)"
proof -
  let ?w = "\<lparr>clock = 1000, stdout = [], stderr = [], posts = []\<rparr>"
  show ?thesis
    using send_telemetry_failure_sentinel [where net = "\<lparr>outcome = Raises (RequestException Timeout), took = 3\<rparr>"
        and x = Timeout and w = ?w and srv = DEFAULT_SERVER and tok = "''T''" and la = 34 and lo = "- 118"
        and ba = None and ac = None and al = None]
      send_telemetry_failure_sentinel [where net = "\<lparr>outcome = Responds \<lparr>status_code = 503, resp_text = ''busy''\<rparr>, took = 3\<rparr>"
        and r = "\<lparr>status_code = 503, resp_text = ''busy''\<rparr>"
        and w = ?w and srv = DEFAULT_SERVER and tok = "''T''" and la = 34 and lo = "- 118"
        and ba = None and ac = None and al = None]
      send_telemetry_failure_sentinel [where net = "\<lparr>outcome = Responds \<lparr>status_code = 302, resp_text = ''moved''\<rparr>, took = 3\<rparr>"
        and r = "\<lparr>status_code = 302, resp_text = ''moved''\<rparr>"
        and w = ?w and srv = DEFAULT_SERVER and tok = "''T''" and la = 34 and lo = "- 118"
        and ba = None and ac = None and al = None]
    by simp
qed

text \<open>
  Claim C3 as stated fails for a non-2xx status below 400: a 304 response is returned to the
  caller as it is and nothing is printed.
\<close>

theorem status_304_returned_without_diagnostic:
  "fst (send_telemetry \<lparr>outcome = Responds \<lparr>status_code = 304, resp_text = ''''\<rparr>, took = 0\<rparr>
          \<lparr>clock = 1000, stdout = [], stderr = [], posts = []\<rparr>
          DEFAULT_SERVER ''T'' 34 (- 118) None None None)
     = Inr (Some \<lparr>status_code = 304, resp_text = ''''\<rparr>) \<and>
   stdout (snd (send_telemetry \<lparr>outcome = Responds \<lparr>status_code = 304, resp_text = ''''\<rparr>, took = 0\<rparr>
          \<lparr>clock = 1000, stdout = [], stderr = [], posts = []\<rparr>
          DEFAULT_SERVER ''T'' 34 (- 118) None None None)) = []"
  by (simp add: script_defs)

subsection \<open>The simulation\<close>




text \<open>
  Claim C5. In every tick the battery becomes \<open>max 0 (battery - drain)\<close>, where
  \<open>drain\<close> is the draw of \<open>random.uniform(0.1, 0.5)\<close> and lies between 0.1 and
  0.5 whatever the generator produces; so the new level is not negative and not above the old
  one (not above 0 should the old one be negative, which never happens: the run starts at 100).
  The loop started from the initial state of \<open>simulate_movement\<close> ends with a battery
  between 0 and 100, after any number of ticks. In every run of \<open>simulate_movement\<close> the
  battery values posted, in order, never increase and lie between 0 and 100.
\<close>

theorem battery_non_increasing_floored:
  "(tick srv tok ival e st w = (Inr st1, w1) \<longrightarrow>
      battery st1 = max 0 (battery st - random_uniform (1 / 10) (1 / 2) (raw_drain e)) \<and>
      1 / 10 \<le> random_uniform (1 / 10) (1 / 2) (raw_drain e) \<and>
      random_uniform (1 / 10) (1 / 2) (raw_drain e) \<le> 1 / 2 \<and>
      0 \<le> battery st1 \<and> battery st1 \<le> max 0 (battery st)) \<and>
   (sim_loop srv tok dur ival start envs
      \<lparr>current_lat = la, current_lon = lo, battery = 100, update_count = 0\<rparr> w0 = Some (Inr st', w0') \<longrightarrow>
      0 \<le> battery st' \<and> battery st' \<le> 100) \<and>
   (simulate_movement envs w srv tok la lo dur ival = Some (r, w') \<longrightarrow>
      (\<exists>reqs. posts w' = posts w @ reqs \<and> sorted_wrt (\<ge>) (map batt_sent reqs) \<and>
         (\<forall>q\<in>set reqs. 0 \<le> batt_sent q \<and> batt_sent q \<le> 100)))"
proof (intro conjI impI)
  assume t: "tick srv tok ival e st w = (Inr st1, w1)"
  have b: "battery st1 = drained e st" using t by (rule tick_Inr(3))
  show "battery st1 = max 0 (battery st - random_uniform (1 / 10) (1 / 2) (raw_drain e))"
    using b by (simp add: drained_def)
  show "1 / 10 \<le> random_uniform (1 / 10) (1 / 2) (raw_drain e)"
    and "random_uniform (1 / 10) (1 / 2) (raw_drain e) \<le> 1 / 2"
    using drain_range [of "raw_drain e"] by simp_all
  show "0 \<le> battery st1" using b drained_bounds(1) [where e = e and st = st] by simp
  show "battery st1 \<le> max 0 (battery st)"
    using b drain_range [of "raw_drain e"] unfolding drained_def by linarith
next
  assume l: "sim_loop srv tok dur ival start envs
      \<lparr>current_lat = la, current_lon = lo, battery = 100, update_count = 0\<rparr> w0 = Some (Inr st', w0')"
  have "0 \<le> battery st' \<and> battery st' \<le> battery \<lparr>current_lat = la, current_lon = lo, battery = 100, update_count = 0\<rparr>"
    using l by (rule sim_loop_battery) simp
  then show "0 \<le> battery st'" "battery st' \<le> 100" by simp_all
next
  let ?w = "w\<lparr>stdout := stdout w @ [StartingSimulation, InitialPosition la lo, DurationInterval dur ival, Dashes]\<rparr>"
  let ?st = "\<lparr>current_lat = la, current_lon = lo, battery = 100, update_count = 0\<rparr>"
  assume "simulate_movement envs w srv tok la lo dur ival = Some (r, w')"
  from simulate_movement_Some [OF this]
  obtain r0 w0 where l: "sim_loop srv tok dur ival (clock w) envs ?st ?w = Some (r0, w0)"
    and p: "posts w' = posts w0" by blast
  from sim_loop_posts [OF l] obtain reqs where q: "posts w0 = posts ?w @ reqs"
    "list_all sim_fields_ok reqs" "sorted_wrt (\<ge>) (map batt_sent reqs)"
    by auto
  have "\<forall>q\<in>set reqs. 0 \<le> batt_sent q \<and> batt_sent q \<le> 100"
    using q(2) by (auto simp add: list_all_iff sim_fields_ok_def dest: batt_sent_bounds)
  with p q show "\<exists>reqs. posts w' = posts w @ reqs \<and> sorted_wrt (\<ge>) (map batt_sent reqs) \<and>
         (\<forall>q\<in>set reqs. 0 \<le> batt_sent q \<and> batt_sent q \<le> 100)"
    by auto
qed

text \<open>
  A battery at 0.05 drained by 0.1 stops at 0; a run of three ticks with the largest drain posts
  the battery values 99, 99, 98.
\<close>

theorem battery_non_increasing_floored_witness:
  "\<exists>st1 w1 st' w0' w'.
     tick DEFAULT_SERVER ''T'' 1
        \<lparr>raw_lat = 0, raw_lon = 0, raw_drain = 0, raw_accuracy = 0, raw_altitude = 0,
          reply = \<lparr>outcome = Raises (RequestException ConnectionError), took = 0\<rparr>,
          overslept = 0\<rparr>
        \<lparr>current_lat = 34, current_lon = - 118, battery = 1 / 20, update_count = 0\<rparr>
        \<lparr>clock = 1000, stdout = [], stderr = [], posts = []\<rparr> = (Inr st1, w1) \<and>
     battery st1 = 0 \<and>
     sim_loop DEFAULT_SERVER ''T'' 2 1 1000
        [\<lparr>raw_lat = 0, raw_lon = 0, raw_drain = 0, raw_accuracy = 0, raw_altitude = 0,
          reply = \<lparr>outcome = Raises (RequestException ConnectionError), took = 0\<rparr>,
          overslept = 0\<rparr>,
         \<lparr>raw_lat = 0, raw_lon = 0, raw_drain = 0, raw_accuracy = 0, raw_altitude = 0,
          reply = \<lparr>outcome = Raises (RequestException ConnectionError), took = 0\<rparr>,
          overslept = 0\<rparr>]
        \<lparr>current_lat = 34, current_lon = - 118, battery = 100, update_count = 0\<rparr>
        \<lparr>clock = 1000, stdout = [], stderr = [], posts = []\<rparr> = Some (Inr st', w0') \<and>
     0 \<le> battery st' \<and> battery st' \<le> 100 \<and>
     simulate_movement
        [\<lparr>raw_lat = 0, raw_lon = 0, raw_drain = 9007199254740991, raw_accuracy = 0, raw_altitude = 0,
          reply = \<lparr>outcome = Responds \<lparr>status_code = 200, resp_text = ''OK''\<rparr>, took = 0\<rparr>,
          overslept = 0\<rparr>,
         \<lparr>raw_lat = 0, raw_lon = 0, raw_drain = 9007199254740991, raw_accuracy = 0, raw_altitude = 0,
          reply = \<lparr>outcome = Responds \<lparr>status_code = 200, resp_text = ''OK''\<rparr>, took = 0\<rparr>,
          overslept = 0\<rparr>,
         \<lparr>raw_lat = 0, raw_lon = 0, raw_drain = 9007199254740991, raw_accuracy = 0, raw_altitude = 0,
          reply = \<lparr>outcome = Responds \<lparr>status_code = 200, resp_text = ''OK''\<rparr>, took = 0\<rparr>,
          overslept = 0\<rparr>]
        \<lparr>clock = 1000, stdout = [], stderr = [], posts = []\<rparr>
        DEFAULT_SERVER ''T'' 34 (- 118) 3 1 = Some (Inr (), w') \<and>
     map batt_sent (posts w') = [99, 99, 98] \<and>
     sorted_wrt (\<ge>) (map batt_sent (posts w'))"
proof -
  let ?e = "\<lparr>raw_lat = 0, raw_lon = 0, raw_drain = 0, raw_accuracy = 0, raw_altitude = 0,
          reply = \<lparr>outcome = Raises (RequestException ConnectionError), took = 0\<rparr>,
          overslept = 0\<rparr>"
  let ?m = "\<lparr>raw_lat = 0, raw_lon = 0, raw_drain = 9007199254740991, raw_accuracy = 0, raw_altitude = 0,
          reply = \<lparr>outcome = Responds \<lparr>status_code = 200, resp_text = ''OK''\<rparr>, took = 0\<rparr>,
          overslept = 0\<rparr>"
  let ?w = "\<lparr>clock = 1000, stdout = [], stderr = [], posts = []\<rparr>"
  let ?low = "\<lparr>current_lat = 34, current_lon = - 118, battery = 1 / 20, update_count = 0\<rparr>"
  let ?st = "\<lparr>current_lat = 34, current_lon = - 118, battery = 100, update_count = 0\<rparr>"
  have pe: "post_returns (reply ?e)" by (simp add: post_returns_def)
  from tick_returns [OF pe, of 1 DEFAULT_SERVER "''T''" ?low ?w]
  obtain st1 w1 where t: "tick DEFAULT_SERVER ''T'' 1 ?e ?low ?w = (Inr st1, w1)" by auto
  have b1: "battery st1 = 0"
    using battery_non_increasing_floored [where srv = DEFAULT_SERVER and tok = "''T''" and ival = 1
        and e = ?e and st = ?low and w = ?w and ?st1.0 = st1 and ?w1.0 = w1] t
    by (simp add: random_uniform_def random_random_def)
  have "\<forall>e\<in>set [?e, ?e]. post_returns (reply e) \<and> 1 \<le> real_of_int 1 + took (reply e) + overslept e"
    by (simp add: post_returns_def)
  from sim_loop_completes [of 1 1 "[?e, ?e]" 2 ?w 1000 DEFAULT_SERVER "''T''" ?st] this
  obtain st' w0' where l: "sim_loop DEFAULT_SERVER ''T'' 2 1 1000 [?e, ?e] ?st ?w = Some (Inr st', w0')"
    by auto
  have b2: "0 \<le> battery st' \<and> battery st' \<le> 100"
    using battery_non_increasing_floored [where srv = DEFAULT_SERVER and tok = "''T''" and dur = 2
        and ival = 1 and start = 1000 and envs = "[?e, ?e]" and la = 34 and lo = "- 118"
        and ?w0.0 = ?w and st' = st' and ?w0' = w0'] l
    by blast
  have "\<forall>e\<in>set [?m, ?m, ?m]. post_returns (reply e) \<and> 1 \<le> real_of_int 1 + took (reply e) + overslept e"
    by (simp add: post_returns_def)
  from simulate_movement_returns [of 1 1 "[?m, ?m, ?m]" 3 DEFAULT_SERVER "''T''" ?w 34 "- 118"] this
  obtain w' where r: "simulate_movement [?m, ?m, ?m] ?w DEFAULT_SERVER ''T'' 34 (- 118) 3 1 = Some (Inr (), w')"
    by auto
  have "map_option (map batt_sent \<circ> posts \<circ> snd)
          (simulate_movement [?m, ?m, ?m] ?w DEFAULT_SERVER ''T'' 34 (- 118) 3 1) = Some [99, 99, 98]"
    by (simp add: script_defs batt_sent_def)
  with r have v: "map batt_sent (posts w') = [99, 99, 98]" by simp
  have s: "sorted_wrt (\<ge>) (map batt_sent (posts w'))"
    using battery_non_increasing_floored [where envs = "[?m, ?m, ?m]" and w = ?w and srv = DEFAULT_SERVER
        and tok = "''T''" and la = 34 and lo = "- 118" and dur = 3 and ival = 1 and r = "Inr ()"
        and w' = w'] r
    by auto
  show ?thesis
    by (rule exI [of _ st1], rule exI [of _ w1], rule exI [of _ st'], rule exI [of _ w0'],
        rule exI [of _ w'])
       (intro conjI t b1 l r v s conjunct1 [OF b2] conjunct2 [OF b2])
qed

text \<open>
  Claim C6. The loop tests the elapsed time before each tick: when it is not below the duration
  the loop ends without a tick, otherwise one tick (one POST) is performed and the loop goes on.
  A run that returns has performed no tick exactly when the duration is not positive. With
  duration 12 and interval 5, and the POSTs and oversleeps of the first two ticks taking less than
  2 seconds together, exactly 3 ticks are performed.
\<close>

theorem check_then_tick:
  "(\<not> clock w - start < real_of_int dur \<longrightarrow>
      sim_loop srv tok dur ival start envs st w = Some (Inr st, w)) \<and>
   (clock w - start < real_of_int dur \<longrightarrow>
      sim_loop srv tok dur ival start (e # es) st w =
        (case tick srv tok ival e st w of
           (Inl x, w1) \<Rightarrow> Some (Inl x, w1)
         | (Inr st1, w1) \<Rightarrow> sim_loop srv tok dur ival start es st1 w1) \<and>
      length (posts (snd (tick srv tok ival e st w))) = length (posts w) + 1) \<and>
   (simulate_movement envs w srv tok la lo dur ival = Some (r, w') \<longrightarrow>
      (posts w' = posts w) = (dur \<le> 0)) \<and>
   (envs = e1 # e2 # e3 # rest \<and> list_all time_passes [e1, e2, e3] \<and>
    list_all (\<lambda>e. post_returns (reply e)) [e1, e2, e3] \<and>
    took (reply e1) + overslept e1 + took (reply e2) + overslept e2 < 2 \<longrightarrow>
      (\<exists>w3. simulate_movement envs w srv tok la lo 12 5 = Some (Inr (), w3) \<and>
         length (posts w3) = length (posts w) + 3))"
proof (intro conjI impI)
  assume "\<not> clock w - start < real_of_int dur"
  then show "sim_loop srv tok dur ival start envs st w = Some (Inr st, w)"
    by (rule sim_loop_stop)
next
  assume "clock w - start < real_of_int dur"
  then show "sim_loop srv tok dur ival start (e # es) st w =
        (case tick srv tok ival e st w of
           (Inl x, w1) \<Rightarrow> Some (Inl x, w1)
         | (Inr st1, w1) \<Rightarrow> sim_loop srv tok dur ival start es st1 w1)"
    by simp
next
  show "length (posts (snd (tick srv tok ival e st w))) = length (posts w) + 1"
    by (rule tick_length_posts)
next
  assume "simulate_movement envs w srv tok la lo dur ival = Some (r, w')"
  then show "(posts w' = posts w) = (dur \<le> 0)"
    by (rule simulate_movement_no_tick)
next
  let ?w = "w\<lparr>stdout := stdout w @ [StartingSimulation, InitialPosition la lo, DurationInterval 12 5, Dashes]\<rparr>"
  let ?st = "\<lparr>current_lat = la, current_lon = lo, battery = 100, update_count = 0\<rparr>"
  assume a: "envs = e1 # e2 # e3 # rest \<and> list_all time_passes [e1, e2, e3] \<and>
    list_all (\<lambda>e. post_returns (reply e)) [e1, e2, e3] \<and>
    took (reply e1) + overslept e1 + took (reply e2) + overslept e2 < 2"
  then have tp: "0 \<le> took (reply e1)" "0 \<le> overslept e1" "0 \<le> took (reply e2)" "0 \<le> overslept e2"
      "0 \<le> took (reply e3)" "0 \<le> overslept e3"
    and pr: "post_returns (reply e1)" "post_returns (reply e2)" "post_returns (reply e3)"
    and small: "took (reply e1) + overslept e1 + took (reply e2) + overslept e2 < 2"
    by (simp_all add: time_passes_def)
  from tick_returns [OF pr(1), of 5 srv tok ?st ?w]
  obtain st1 w1 where t1: "tick srv tok 5 e1 ?st ?w = (Inr st1, w1)" by auto
  from tick_returns [OF pr(2), of 5 srv tok st1 w1]
  obtain st2 w2 where t2: "tick srv tok 5 e2 st1 w1 = (Inr st2, w2)" by auto
  from tick_returns [OF pr(3), of 5 srv tok st2 w2]
  obtain st3 w3 where t3: "tick srv tok 5 e3 st2 w2 = (Inr st3, w3)" by auto
  have c1: "clock w1 = clock w + took (reply e1) + 5 + overslept e1"
    using tick_Inr(5) [OF t1] by simp
  have c2: "clock w2 = clock w1 + took (reply e2) + 5 + overslept e2"
    using tick_Inr(5) [OF t2] by simp
  have c3: "clock w3 = clock w2 + took (reply e3) + 5 + overslept e3"
    using tick_Inr(5) [OF t3] by simp
  have p1: "length (posts w1) = length (posts w) + 1"
    using tick_length_posts [of srv tok 5 e1 ?st ?w] t1 by simp
  have p2: "length (posts w2) = length (posts w1) + 1"
    using tick_length_posts [of srv tok 5 e2 st1 w1] t2 by simp
  have p3: "length (posts w3) = length (posts w2) + 1"
    using tick_length_posts [of srv tok 5 e3 st2 w2] t3 by simp
  have g0: "clock ?w - clock w < real_of_int 12" by simp
  have g1: "clock w1 - clock w < real_of_int 12" using c1 tp small by simp
  have g2: "clock w2 - clock w < real_of_int 12" using c1 c2 tp small by simp
  have g3: "\<not> clock w3 - clock w < real_of_int 12" using c1 c2 c3 tp by simp
  have "sim_loop srv tok 12 5 (clock w) rest st3 w3 = Some (Inr st3, w3)"
    using g3 by (rule sim_loop_stop)
  then have "sim_loop srv tok 12 5 (clock w) (e3 # rest) st2 w2 = Some (Inr st3, w3)"
    using g2 t3 by simp
  then have "sim_loop srv tok 12 5 (clock w) (e2 # e3 # rest) st1 w1 = Some (Inr st3, w3)"
    using g1 t2 by simp
  then have "sim_loop srv tok 12 5 (clock w) (e1 # e2 # e3 # rest) ?st ?w = Some (Inr st3, w3)"
    using g0 t1 by simp
  then have "sim_loop srv tok 12 5 (clock w) envs ?st ?w = Some (Inr st3, w3)"
    using a by simp
  from simulate_movement_completes [OF this] p1 p2 p3
  show "\<exists>w3. simulate_movement envs w srv tok la lo 12 5 = Some (Inr (), w3) \<and>
         length (posts w3) = length (posts w) + 3"
    by simp
qed

text \<open>
  Four contributions on offer, POSTs of half a second and oversleeps of a quarter: three ticks
  are performed.
\<close>

theorem check_then_tick_witness:
  "\<exists>w3.
     list_all time_passes
       [\<lparr>raw_lat = 0, raw_lon = 0, raw_drain = 0, raw_accuracy = 0, raw_altitude = 0,
          reply = \<lparr>outcome = Responds \<lparr>status_code = 200, resp_text = ''OK''\<rparr>, took = 1 / 2\<rparr>,
          overslept = 1 / 4\<rparr>] \<and>
     simulate_movement
       [\<lparr>raw_lat = 0, raw_lon = 0, raw_drain = 0, raw_accuracy = 0, raw_altitude = 0,
          reply = \<lparr>outcome = Responds \<lparr>status_code = 200, resp_text = ''OK''\<rparr>, took = 1 / 2\<rparr>,
          overslept = 1 / 4\<rparr>,
        \<lparr>raw_lat = 0, raw_lon = 0, raw_drain = 0, raw_accuracy = 0, raw_altitude = 0,
          reply = \<lparr>outcome = Responds \<lparr>status_code = 200, resp_text = ''OK''\<rparr>, took = 1 / 2\<rparr>,
          overslept = 1 / 4\<rparr>,
        \<lparr>raw_lat = 0, raw_lon = 0, raw_drain = 0, raw_accuracy = 0, raw_altitude = 0,
          reply = \<lparr>outcome = Responds \<lparr>status_code = 200, resp_text = ''OK''\<rparr>, took = 1 / 2\<rparr>,
          overslept = 1 / 4\<rparr>,
        \<lparr>raw_lat = 0, raw_lon = 0, raw_drain = 0, raw_accuracy = 0, raw_altitude = 0,
          reply = \<lparr>outcome = Responds \<lparr>status_code = 200, resp_text = ''OK''\<rparr>, took = 1 / 2\<rparr>,
          overslept = 1 / 4\<rparr>]
       \<lparr>clock = 1000, stdout = [], stderr = [], posts = []\<rparr>
       DEFAULT_SERVER ''T'' 34 (- 118) 12 5 = Some (Inr (), w3) \<and>
     length (posts w3) = 3 \<and> posts w3 \<noteq> [] \<and>
     sim_loop DEFAULT_SERVER ''T'' 12 5 1000
       [\<lparr>raw_lat = 0, raw_lon = 0, raw_drain = 0, raw_accuracy = 0, raw_altitude = 0,
          reply = \<lparr>outcome = Responds \<lparr>status_code = 200, resp_text = ''OK''\<rparr>, took = 1 / 2\<rparr>,
          overslept = 1 / 4\<rparr>]
       \<lparr>current_lat = 34, current_lon = - 118, battery = 100, update_count = 0\<rparr>
       \<lparr>clock = 1012, stdout = [], stderr = [], posts = []\<rparr>
       = Some (Inr \<lparr>current_lat = 34, current_lon = - 118, battery = 100, update_count = 0\<rparr>,
               \<lparr>clock = 1012, stdout = [], stderr = [], posts = []\<rparr>) \<and>
     length (posts (snd (tick DEFAULT_SERVER ''T'' 5
       \<lparr>raw_lat = 0, raw_lon = 0, raw_drain = 0, raw_accuracy = 0, raw_altitude = 0,
          reply = \<lparr>outcome = Responds \<lparr>status_code = 200, resp_text = ''OK''\<rparr>, took = 1 / 2\<rparr>,
          overslept = 1 / 4\<rparr>
       \<lparr>current_lat = 34, current_lon = - 118, battery = 100, update_count = 0\<rparr>
       \<lparr>clock = 1011, stdout = [], stderr = [], posts = []\<rparr>))) = 1"
proof -
  let ?e = "\<lparr>raw_lat = 0, raw_lon = 0, raw_drain = 0, raw_accuracy = 0, raw_altitude = 0,
          reply = \<lparr>outcome = Responds \<lparr>status_code = 200, resp_text = ''OK''\<rparr>, took = 1 / 2\<rparr>,
          overslept = 1 / 4\<rparr>"
  let ?w = "\<lparr>clock = 1000, stdout = [], stderr = [], posts = []\<rparr>"
  let ?st = "\<lparr>current_lat = 34, current_lon = - 118, battery = 100, update_count = 0\<rparr>"
  have tp: "list_all time_passes [?e]" by (simp add: time_passes_def)
  have h: "[?e, ?e, ?e, ?e] = ?e # ?e # ?e # [?e] \<and> list_all time_passes [?e, ?e, ?e] \<and>
      list_all (\<lambda>e. post_returns (reply e)) [?e, ?e, ?e] \<and>
      took (reply ?e) + overslept ?e + took (reply ?e) + overslept ?e < 2"
    by (simp add: time_passes_def post_returns_def)
  from check_then_tick [where envs = "[?e, ?e, ?e, ?e]" and ?e1.0 = ?e and ?e2.0 = ?e and ?e3.0 = ?e
      and rest = "[?e]" and w = ?w and srv = DEFAULT_SERVER and tok = "''T''" and la = 34 and lo = "- 118"] h
  obtain w3 where r: "simulate_movement [?e, ?e, ?e, ?e] ?w DEFAULT_SERVER ''T'' 34 (- 118) 12 5 = Some (Inr (), w3)"
    and n: "length (posts w3) = length (posts ?w) + 3"
    by blast
  have z: "posts w3 \<noteq> []"
    using check_then_tick [where envs = "[?e, ?e, ?e, ?e]" and w = ?w and srv = DEFAULT_SERVER
        and tok = "''T''" and la = 34 and lo = "- 118" and dur = 12 and ival = 5 and r = "Inr ()" and w' = w3] r
    by simp
  have s: "sim_loop DEFAULT_SERVER ''T'' 12 5 1000 [?e] ?st \<lparr>clock = 1012, stdout = [], stderr = [], posts = []\<rparr>
       = Some (Inr ?st, \<lparr>clock = 1012, stdout = [], stderr = [], posts = []\<rparr>)"
    using check_then_tick [where w = "\<lparr>clock = 1012, stdout = [], stderr = [], posts = []\<rparr>"
        and start = 1000 and dur = 12 and srv = DEFAULT_SERVER and tok = "''T''" and ival = 5
        and envs = "[?e]" and st = ?st]
    by simp
  have p: "length (posts (snd (tick DEFAULT_SERVER ''T'' 5 ?e ?st
              \<lparr>clock = 1011, stdout = [], stderr = [], posts = []\<rparr>))) = 1"
    using check_then_tick [where w = "\<lparr>clock = 1011, stdout = [], stderr = [], posts = []\<rparr>"
        and start = 1000 and dur = 12 and srv = DEFAULT_SERVER and tok = "''T''" and ival = 5
        and e = ?e and st = ?st]
    by simp
  from tp r n z s p show ?thesis by simp
qed

text \<open>
  Claim C10. Every request posted by a simulation run carries \<open>batt\<close> as an int from 0
  to 100, \<open>acc\<close> as an int from 5 to 20 and \<open>alt\<close> as an int from 50 to 100,
  whatever the generator produces, and a run that returns has posted at least one request unless
  the duration is not positive. Every tick posts one request with the draws of
  \<open>randint(5, 20)\<close> and \<open>randint(50, 100)\<close>, the truncated battery, and the new
  latitude and longitude rounded to 6 decimal places; the position carried to the next tick is
  the new position unrounded.
\<close>

theorem simulation_sends_all_optional_fields:
  "(simulate_movement envs w srv tok la lo dur ival = Some (r, w') \<longrightarrow>
      (\<exists>reqs. posts w' = posts w @ reqs \<and> list_all sim_fields_ok reqs \<and> (reqs = []) = (dur \<le> 0))) \<and>
   (\<exists>req. posts (snd (tick srv tok ival e st w)) = posts w @ [req] \<and>
      map_of (data req) ''lat'' =
        Some (JFloat (py_round (current_lat st + random_uniform (- (1 / 1000)) (1 / 1000) (raw_lat e)) 6)) \<and>
      map_of (data req) ''lon'' =
        Some (JFloat (py_round (current_lon st + random_uniform (- (1 / 1000)) (1 / 1000) (raw_lon e)) 6)) \<and>
      map_of (data req) ''batt'' =
        Some (JInt (py_int (max 0 (battery st - random_uniform (1 / 10) (1 / 2) (raw_drain e))))) \<and>
      map_of (data req) ''acc'' = Some (JInt (random_randint 5 20 (raw_accuracy e))) \<and>
      map_of (data req) ''alt'' = Some (JInt (random_randint 50 100 (raw_altitude e))) \<and>
      int_field_in (data req) ''acc'' 5 20 \<and> int_field_in (data req) ''alt'' 50 100 \<and>
      (battery st \<le> 100 \<longrightarrow> int_field_in (data req) ''batt'' 0 100)) \<and>
   (tick srv tok ival e st w = (Inr st1, w1) \<longrightarrow>
      current_lat st1 = current_lat st + random_uniform (- (1 / 1000)) (1 / 1000) (raw_lat e) \<and>
      current_lon st1 = current_lon st + random_uniform (- (1 / 1000)) (1 / 1000) (raw_lon e) \<and>
      0 \<le> battery st1 \<and> (battery st \<le> 100 \<longrightarrow> battery st1 \<le> 100))"
proof (intro conjI impI)
  let ?w = "w\<lparr>stdout := stdout w @ [StartingSimulation, InitialPosition la lo, DurationInterval dur ival, Dashes]\<rparr>"
  let ?st = "\<lparr>current_lat = la, current_lon = lo, battery = 100, update_count = 0\<rparr>"
  assume a: "simulate_movement envs w srv tok la lo dur ival = Some (r, w')"
  from simulate_movement_Some [OF a]
  obtain r0 w0 where l: "sim_loop srv tok dur ival (clock w) envs ?st ?w = Some (r0, w0)"
    and p: "posts w' = posts w0" by blast
  from sim_loop_posts [OF l] obtain reqs where q: "posts w0 = posts ?w @ reqs"
    "list_all sim_fields_ok reqs"
    by auto
  have "(posts w' = posts w) = (dur \<le> 0)" using a by (rule simulate_movement_no_tick)
  with p q have "(reqs = []) = (dur \<le> 0)" by simp
  with p q show "\<exists>reqs. posts w' = posts w @ reqs \<and> list_all sim_fields_ok reqs \<and> (reqs = []) = (dur \<le> 0)"
    by auto
next
  let ?q = "tick_request srv tok e st w"
  have "posts (snd (tick srv tok ival e st w)) = posts w @ [?q]" by (rule tick_posts)
  moreover have "map_of (data ?q) ''lat'' =
        Some (JFloat (py_round (current_lat st + random_uniform (- (1 / 1000)) (1 / 1000) (raw_lat e)) 6))"
    "map_of (data ?q) ''lon'' =
        Some (JFloat (py_round (current_lon st + random_uniform (- (1 / 1000)) (1 / 1000) (raw_lon e)) 6))"
    "map_of (data ?q) ''batt'' =
        Some (JInt (py_int (max 0 (battery st - random_uniform (1 / 10) (1 / 2) (raw_drain e)))))"
    "map_of (data ?q) ''acc'' = Some (JInt (random_randint 5 20 (raw_accuracy e)))"
    "map_of (data ?q) ''alt'' = Some (JInt (random_randint 50 100 (raw_altitude e)))"
    by (simp_all add: tick_request_def payload_lookup drained_def)
  moreover have "int_field_in (data ?q) ''acc'' 5 20" "int_field_in (data ?q) ''alt'' 50 100"
    "battery st \<le> 100 \<longrightarrow> int_field_in (data ?q) ''batt'' 0 100"
    using tick_request_fields(3-5) [where srv = srv and tok = tok and e = e and st = st and w = w]
    by simp_all
  ultimately show "\<exists>req. posts (snd (tick srv tok ival e st w)) = posts w @ [req] \<and>
      map_of (data req) ''lat'' =
        Some (JFloat (py_round (current_lat st + random_uniform (- (1 / 1000)) (1 / 1000) (raw_lat e)) 6)) \<and>
      map_of (data req) ''lon'' =
        Some (JFloat (py_round (current_lon st + random_uniform (- (1 / 1000)) (1 / 1000) (raw_lon e)) 6)) \<and>
      map_of (data req) ''batt'' =
        Some (JInt (py_int (max 0 (battery st - random_uniform (1 / 10) (1 / 2) (raw_drain e))))) \<and>
      map_of (data req) ''acc'' = Some (JInt (random_randint 5 20 (raw_accuracy e))) \<and>
      map_of (data req) ''alt'' = Some (JInt (random_randint 50 100 (raw_altitude e))) \<and>
      int_field_in (data req) ''acc'' 5 20 \<and> int_field_in (data req) ''alt'' 50 100 \<and>
      (battery st \<le> 100 \<longrightarrow> int_field_in (data req) ''batt'' 0 100)"
    by blast
next
  assume t: "tick srv tok ival e st w = (Inr st1, w1)"
  show "current_lat st1 = current_lat st + random_uniform (- (1 / 1000)) (1 / 1000) (raw_lat e)"
    using t by (rule tick_Inr(1))
  show "current_lon st1 = current_lon st + random_uniform (- (1 / 1000)) (1 / 1000) (raw_lon e)"
    using t by (rule tick_Inr(2))
  have b: "battery st1 = drained e st" using t by (rule tick_Inr(3))
  show "0 \<le> battery st1" using b drained_bounds(1) [where e = e and st = st] by simp
next
  assume t: "tick srv tok ival e st w = (Inr st1, w1)" and h: "battery st \<le> 100"
  have b: "battery st1 = drained e st" using t by (rule tick_Inr(3))
  show "battery st1 \<le> 100" using b h drained_bounds(3) [where e = e and st = st] by simp
qed

text \<open>
  A tick that moves the latitude by 1/4096000 of a degree: the posted latitude is 34, the
  latitude carried on is 34 + 1/4096000; accuracy 20 and altitude 100 are the upper ends of the
  ranges.
\<close>

theorem simulation_sends_all_optional_fields_witness:
  "\<exists>w' st1 w1.
     simulate_movement
       [\<lparr>raw_lat = 4504699138998272, raw_lon = 4503599627370496, raw_drain = 0,
          raw_accuracy = 15, raw_altitude = 50,
          reply = \<lparr>outcome = Responds \<lparr>status_code = 200, resp_text = ''OK''\<rparr>, took = 0\<rparr>,
          overslept = 0\<rparr>]
       \<lparr>clock = 1000, stdout = [], stderr = [], posts = []\<rparr>
       DEFAULT_SERVER ''T'' 34 (- 118) 1 1 = Some (Inr (), w') \<and>
     posts w' \<noteq> [] \<and> list_all sim_fields_ok (posts w') \<and>
     (\<exists>req. posts (snd (tick DEFAULT_SERVER ''T'' 1
         \<lparr>raw_lat = 4504699138998272, raw_lon = 4503599627370496, raw_drain = 0,
            raw_accuracy = 15, raw_altitude = 50,
            reply = \<lparr>outcome = Responds \<lparr>status_code = 200, resp_text = ''OK''\<rparr>, took = 0\<rparr>,
            overslept = 0\<rparr>
         \<lparr>current_lat = 34, current_lon = - 118, battery = 100, update_count = 0\<rparr>
         \<lparr>clock = 1000, stdout = [], stderr = [], posts = []\<rparr>)) = [req] \<and>
       map_of (data req) ''lat'' = Some (JFloat 34) \<and>
       map_of (data req) ''lon'' = Some (JFloat (- 118)) \<and>
       map_of (data req) ''batt'' = Some (JInt 99) \<and>
       map_of (data req) ''acc'' = Some (JInt 20) \<and>
       map_of (data req) ''alt'' = Some (JInt 100)) \<and>
     tick DEFAULT_SERVER ''T'' 1
       \<lparr>raw_lat = 4504699138998272, raw_lon = 4503599627370496, raw_drain = 0,
          raw_accuracy = 15, raw_altitude = 50,
          reply = \<lparr>outcome = Responds \<lparr>status_code = 200, resp_text = ''OK''\<rparr>, took = 0\<rparr>,
          overslept = 0\<rparr>
       \<lparr>current_lat = 34, current_lon = - 118, battery = 100, update_count = 0\<rparr>
       \<lparr>clock = 1000, stdout = [], stderr = [], posts = []\<rparr> = (Inr st1, w1) \<and>
     current_lat st1 = 34 + 1 / 4096000 \<and> current_lon st1 = - 118"
proof -
  let ?e = "\<lparr>raw_lat = 4504699138998272, raw_lon = 4503599627370496, raw_drain = 0,
          raw_accuracy = 15, raw_altitude = 50,
          reply = \<lparr>outcome = Responds \<lparr>status_code = 200, resp_text = ''OK''\<rparr>, took = 0\<rparr>,
          overslept = 0\<rparr>"
  let ?w = "\<lparr>clock = 1000, stdout = [], stderr = [], posts = []\<rparr>"
  let ?st = "\<lparr>current_lat = 34, current_lon = - 118, battery = 100, update_count = 0\<rparr>"
  have pe: "post_returns (reply ?e)" by (simp add: post_returns_def)
  have "\<forall>e\<in>set [?e]. post_returns (reply e) \<and> 1 \<le> real_of_int 1 + took (reply e) + overslept e"
    by (simp add: post_returns_def)
  from simulate_movement_returns [of 1 1 "[?e]" 1 DEFAULT_SERVER "''T''" ?w 34 "- 118"] this
  obtain w' where r: "simulate_movement [?e] ?w DEFAULT_SERVER ''T'' 34 (- 118) 1 1 = Some (Inr (), w')"
    by auto
  from tick_returns [OF pe, of 1 DEFAULT_SERVER "''T''" ?st ?w]
  obtain st1 w1 where t: "tick DEFAULT_SERVER ''T'' 1 ?e ?st ?w = (Inr st1, w1)" by auto
  note c = simulation_sends_all_optional_fields [where envs = "[?e]" and w = ?w and srv = DEFAULT_SERVER
      and tok = "''T''" and la = 34 and lo = "- 118" and dur = 1 and ival = 1 and r = "Inr ()"
      and w' = w' and e = ?e and st = ?st and ?st1.0 = st1 and ?w1.0 = w1]
  have v: "random_uniform (- (1 / 1000)) (1 / 1000) 4504699138998272 = 1 / 4096000"
    "random_uniform (- (1 / 1000)) (1 / 1000) 4503599627370496 = 0"
    "random_uniform (1 / 10) (1 / 2) 0 = 1 / 10"
    "random_randint 5 20 15 = 20" "random_randint 50 100 50 = 100"
    by (simp_all add: random_uniform_def random_random_def random_randint_def)
  have y: "py_round (34 + 1 / 4096000) 6 = 34" "py_round (- 118) 6 = - 118"
    "py_int (max 0 (100 - 1 / 10)) = 99"
    by (simp_all add: py_round_def round_half_even_def py_int_def Let_def)
  note c1 = conjunct1 [OF c] and c2 = conjunct1 [OF conjunct2 [OF c]]
    and c3 = conjunct2 [OF conjunct2 [OF c]]
  from mp [OF c1 r] obtain reqs where q: "posts w' = posts ?w @ reqs" "list_all sim_fields_ok reqs"
    "(reqs = []) = ((1::int) \<le> 0)"
    by blast
  have q1: "posts w' \<noteq> []" using q(1,3) by simp
  have q2: "list_all sim_fields_ok (posts w')" using q(1,2) by simp
  from c2 obtain req where k0: "posts (snd (tick DEFAULT_SERVER ''T'' 1 ?e ?st ?w)) = posts ?w @ [req]"
    "map_of (data req) ''lat'' =
       Some (JFloat (py_round (current_lat ?st + random_uniform (- (1 / 1000)) (1 / 1000) (raw_lat ?e)) 6))"
    "map_of (data req) ''lon'' =
       Some (JFloat (py_round (current_lon ?st + random_uniform (- (1 / 1000)) (1 / 1000) (raw_lon ?e)) 6))"
    "map_of (data req) ''batt'' =
       Some (JInt (py_int (max 0 (battery ?st - random_uniform (1 / 10) (1 / 2) (raw_drain ?e)))))"
    "map_of (data req) ''acc'' = Some (JInt (random_randint 5 20 (raw_accuracy ?e)))"
    "map_of (data req) ''alt'' = Some (JInt (random_randint 50 100 (raw_altitude ?e)))"
    by blast
  have s1: "current_lat ?st + random_uniform (- (1 / 1000)) (1 / 1000) (raw_lat ?e) = 34 + 1 / 4096000"
    "current_lon ?st + random_uniform (- (1 / 1000)) (1 / 1000) (raw_lon ?e) = - 118"
    "battery ?st - random_uniform (1 / 10) (1 / 2) (raw_drain ?e) = 100 - 1 / 10"
    "random_randint 5 20 (raw_accuracy ?e) = 20" "random_randint 50 100 (raw_altitude ?e) = 100"
    using v by simp_all
  have k1: "posts (snd (tick DEFAULT_SERVER ''T'' 1 ?e ?st ?w)) = [req]" using k0(1) by simp
  have k2: "map_of (data req) ''lat'' = Some (JFloat 34)" using k0(2) unfolding s1 y .
  have k3: "map_of (data req) ''lon'' = Some (JFloat (- 118))" using k0(3) unfolding s1 y .
  have k4: "map_of (data req) ''batt'' = Some (JInt 99)" using k0(4) unfolding s1 y .
  have k5: "map_of (data req) ''acc'' = Some (JInt 20)" using k0(5) unfolding s1 .
  have k6: "map_of (data req) ''alt'' = Some (JInt 100)" using k0(6) unfolding s1 .
  have k: "\<exists>req. posts (snd (tick DEFAULT_SERVER ''T'' 1 ?e ?st ?w)) = [req] \<and>
       map_of (data req) ''lat'' = Some (JFloat 34) \<and>
       map_of (data req) ''lon'' = Some (JFloat (- 118)) \<and>
       map_of (data req) ''batt'' = Some (JInt 99) \<and>
       map_of (data req) ''acc'' = Some (JInt 20) \<and>
       map_of (data req) ''alt'' = Some (JInt 100)"
    by (rule exI [of _ req]) (intro conjI k1 k2 k3 k4 k5 k6)
  from mp [OF c3 t] have m0:
    "current_lat st1 = current_lat ?st + random_uniform (- (1 / 1000)) (1 / 1000) (raw_lat ?e)"
    "current_lon st1 = current_lon ?st + random_uniform (- (1 / 1000)) (1 / 1000) (raw_lon ?e)"
    by blast+
  have m1: "current_lat st1 = 34 + 1 / 4096000" using m0(1) unfolding s1 .
  have m2: "current_lon st1 = - 118" using m0(2) unfolding s1 .
  show ?thesis
    by (rule exI [of _ w'], rule exI [of _ st1], rule exI [of _ w1])
       (intro conjI r q1 q2 k t m1 m2)
qed

subsection \<open>The command line\<close>

text \<open>
  Claim C7. A command line without \<open>--lat\<close> or without \<open>--lon\<close>, with or
  without \<open>--simulate\<close>, ends in the parser's usage error (exit status 2, two lines on
  standard error) and performs no POST.
\<close>

theorem missing_lat_lon_is_usage_error:
  assumes "opt_lat c = None \<or> opt_lon c = None"
  shows "\<exists>w'. main c net envs w = Some (Inl (SystemExit 2), w') \<and> posts w' = posts w \<and>
           stdout w' = stdout w \<and> length (stderr w') = length (stderr w) + 2"
  using assms
  by (cases "opt_token c") (auto simp add: main_def parse_args_def parser_error_def)

text \<open>
  \<open>--simulate --token T --lat 34\<close> without \<open>--lon\<close>.
\<close>

theorem missing_lat_lon_is_usage_error_witness:
  "(opt_lat \<lparr>opt_token = Some ''T'', opt_server = None, opt_lat = Some 34, opt_lon = None,
            opt_batt = None, opt_acc = None, opt_alt = None, opt_simulate = True,
            opt_duration = None, opt_interval = None\<rparr> = None \<or>
    opt_lon \<lparr>opt_token = Some ''T'', opt_server = None, opt_lat = Some 34, opt_lon = None,
            opt_batt = None, opt_acc = None, opt_alt = None, opt_simulate = True,
            opt_duration = None, opt_interval = None\<rparr> = None) \<and>
   (\<exists>w'. main \<lparr>opt_token = Some ''T'', opt_server = None, opt_lat = Some 34, opt_lon = None,
            opt_batt = None, opt_acc = None, opt_alt = None, opt_simulate = True,
            opt_duration = None, opt_interval = None\<rparr>
        \<lparr>outcome = Responds \<lparr>status_code = 200, resp_text = ''''\<rparr>, took = 0\<rparr> []
        \<lparr>clock = 1000, stdout = [], stderr = [], posts = []\<rparr> = Some (Inl (SystemExit 2), w') \<and>
      posts w' = [] \<and> stdout w' = [] \<and> length (stderr w') = 2)"
  using missing_lat_lon_is_usage_error [of
      "\<lparr>opt_token = Some ''T'', opt_server = None, opt_lat = Some 34, opt_lon = None,
            opt_batt = None, opt_acc = None, opt_alt = None, opt_simulate = True,
            opt_duration = None, opt_interval = None\<rparr>"
      "\<lparr>outcome = Responds \<lparr>status_code = 200, resp_text = ''''\<rparr>, took = 0\<rparr>" "[]"
      "\<lparr>clock = 1000, stdout = [], stderr = [], posts = []\<rparr>"]
  by (simp add: numeral_2_eq_2)

text \<open>
  Claim C8 at a 404 response in single-send mode: the sender prints its diagnostic and returns
  \<open>None\<close>, so the failure report consists of the failure line only; the status code and
  body lines of lines 234 and 235 are not printed.
\<close>

theorem single_send_404_prints_no_status:
  "map_option (stdout \<circ> snd)
     (main \<lparr>opt_token = Some ''T'', opt_server = None, opt_lat = Some 34, opt_lon = Some (- 118),
            opt_batt = None, opt_acc = None, opt_alt = None, opt_simulate = False,
            opt_duration = None, opt_interval = None\<rparr>
        \<lparr>outcome = Responds \<lparr>status_code = 404, resp_text = ''Not Found''\<rparr>, took = 0\<rparr> []
        \<lparr>clock = 1000, stdout = [], stderr = [], posts = []\<rparr>)
     = Some [SendingTo DEFAULT_SERVER,
             ErrorSendingTelemetry (RequestException (HTTPError \<lparr>status_code = 404, resp_text = ''Not Found''\<rparr>)),
             FailedLine]"
  by (simp add: script_defs)

text \<open>
  Claim C9 at \<open>--batt 0\<close> with a 200 response: the payload carries \<open>batt = 0\<close>,
  but the success block has no battery line, because line 225 tests the truth value of the
  argument and not whether it was supplied.
\<close>

theorem single_send_batt_zero_omits_battery_line:
  "map_option (stdout \<circ> snd)
     (main \<lparr>opt_token = Some ''T'', opt_server = None, opt_lat = Some 34, opt_lon = Some (- 118),
            opt_batt = Some 0, opt_acc = None, opt_alt = None, opt_simulate = False,
            opt_duration = None, opt_interval = None\<rparr>
        \<lparr>outcome = Responds \<lparr>status_code = 200, resp_text = ''''\<rparr>, took = 0\<rparr> []
        \<lparr>clock = 1000, stdout = [], stderr = [], posts = []\<rparr>)
     = Some [SendingTo DEFAULT_SERVER, SuccessLine, LatitudeLine 34, LongitudeLine (- 118)] \<and>
   map_option (map data \<circ> posts \<circ> snd)
     (main \<lparr>opt_token = Some ''T'', opt_server = None, opt_lat = Some 34, opt_lon = Some (- 118),
            opt_batt = Some 0, opt_acc = None, opt_alt = None, opt_simulate = False,
            opt_duration = None, opt_interval = None\<rparr>
        \<lparr>outcome = Responds \<lparr>status_code = 200, resp_text = ''''\<rparr>, took = 0\<rparr> []
        \<lparr>clock = 1000, stdout = [], stderr = [], posts = []\<rparr>)
     = Some [[(''_type'', JStr ''location''), (''lat'', JFloat 34), (''lon'', JFloat (- 118)),
              (''tst'', JInt 1000), (''batt'', JInt 0)]]"
  by (simp add: script_defs)

end
